theory Spec2Isabelle
  imports Main "HOL-Library.AList" "HOL-Library.Sublist"
begin

section \<open>JavaScript values, strings and errors\<close>

text \<open>
  Values as \<open>JSON.parse\<close> produces them and as the bus carries them, plus
  \<open>undefined\<close>. An object is an association list in insertion order; its keys
  are unique after \<open>JSON.parse\<close>, and \<open>AList.update\<close> keeps them so (it
  replaces the value of a present key in place and appends an absent one, as a
  property assignment does).
\<close>

datatype jsval =
    JUndefined
  | JNull
  | JBool bool
  | JNum int
  | JStr string
  | JArr "jsval list"
  | JObj "(string \<times> jsval) list"

text \<open>
  What can be thrown: \<open>new Error(m)\<close>, a \<open>TypeError\<close> or \<open>SyntaxError\<close> of
  the runtime, a system error of \<open>fs\<close> or \<open>child_process\<close> with its \<open>code\<close>,
  and a promise rejected with a bus payload.
\<close>

datatype js_error =
    JsError string
  | JsTypeError string
  | JsSyntaxError string
  | JsSystemError string string
  | JsRejected jsval

text \<open>\<open>err.toString()\<close>: name and message for an error object, and
  \<open>[object Object]\<close> for a rejected payload, which is a plain object.\<close>

fun toString :: "js_error \<Rightarrow> string" where
  "toString (JsError m) = ''Error: '' @ m"
| "toString (JsTypeError m) = ''TypeError: '' @ m"
| "toString (JsSyntaxError m) = ''SyntaxError: '' @ m"
| "toString (JsSystemError c m) = ''Error: '' @ m"
| "toString (JsRejected p) = ''[object Object]''"

text \<open>Truthiness, as the conditions \<open>if (x)\<close> and \<open>a && b\<close> read a value.\<close>

fun truthy :: "jsval \<Rightarrow> bool" where
  "truthy JUndefined = False"
| "truthy JNull = False"
| "truthy (JBool b) = b"
| "truthy (JNum n) = (n \<noteq> 0)"
| "truthy (JStr s) = (s \<noteq> [])"
| "truthy (JArr xs) = True"
| "truthy (JObj kv) = True"

text \<open>An optional string parameter (\<open>appName?: string\<close>): absent is \<open>undefined\<close>,
  and the empty string is falsy too.\<close>

fun truthy_arg :: "string option \<Rightarrow> bool" where
  "truthy_arg None = False"
| "truthy_arg (Some s) = (s \<noteq> [])"

text \<open>\<open>finding === s\<close> for a string \<open>s\<close>: only a string value can be strictly
  equal to a string; an object or an array never is.\<close>

fun strict_eq_str :: "jsval \<Rightarrow> string \<Rightarrow> bool" where
  "strict_eq_str (JStr t) s = (t = s)"
| "strict_eq_str v s = False"

text \<open>\<open>s.includes(pat)\<close>.\<close>

fun str_includes :: "string \<Rightarrow> string \<Rightarrow> bool" where
  "str_includes [] pat = (pat = [])"
| "str_includes (c # cs) pat = (prefix pat (c # cs) \<or> str_includes cs pat)"

text \<open>\<open>s.replace(pat, rep)\<close> with a string pattern: the first occurrence only.
  (Every replacement string of the source is free of \<open>$\<close>, so it is inserted
  literally.)\<close>

fun str_replace :: "string \<Rightarrow> string \<Rightarrow> string \<Rightarrow> string" where
  "str_replace [] pat rep = (if pat = [] then rep else [])"
| "str_replace (c # cs) pat rep =
     (if prefix pat (c # cs) then rep @ drop (length pat) (c # cs)
      else c # str_replace cs pat rep)"

text \<open>\<open>s.split(sep)\<close> for a one-character separator (the piece being read is
  kept reversed in \<open>cur\<close>), and \<open>xs.join(sep)\<close>.\<close>

fun split_from :: "string \<Rightarrow> char \<Rightarrow> string \<Rightarrow> string list" where
  "split_from [] sep cur = [rev cur]"
| "split_from (c # cs) sep cur =
     (if c = sep then rev cur # split_from cs sep [] else split_from cs sep (c # cur))"

definition str_split :: "string \<Rightarrow> char \<Rightarrow> string list" where
  "str_split s sep = split_from s sep []"

fun str_join :: "string list \<Rightarrow> string \<Rightarrow> string" where
  "str_join [] sep = []"
| "str_join [x] sep = x"
| "str_join (x # y # ys) sep = x @ sep @ str_join (y # ys) sep"

text \<open>Property access \<open>v.k\<close>: a \<open>TypeError\<close> on \<open>null\<close> and \<open>undefined\<close>,
  the field of an object (\<open>undefined\<close> when it has none), and \<open>undefined\<close> for
  the field names used here on any other value.\<close>

fun get_prop :: "jsval \<Rightarrow> string \<Rightarrow> js_error + jsval" where
  "get_prop JNull k = Inl (JsTypeError (''Cannot read property '' @ k @ '' of null''))"
| "get_prop JUndefined k = Inl (JsTypeError (''Cannot read property '' @ k @ '' of undefined''))"
| "get_prop (JObj kv) k = Inr (case map_of kv k of None \<Rightarrow> JUndefined | Some v \<Rightarrow> v)"
| "get_prop v k = Inr JUndefined"


section \<open>The Elevation Patcher (elevate-service.ts)\<close>

text \<open>
  Paths. Every path the patcher builds is absolute. A path is resolved segment by
  segment: an empty segment and \<open>.\<close> are skipped, and \<open>..\<close> steps back to the
  parent directory (the root is its own parent). Every directory named on the way
  is taken to exist, and symbolic links are not modelled.
\<close>

fun resolve_from :: "string list \<Rightarrow> string list \<Rightarrow> string list" where
  "resolve_from [] stack = rev stack"
| "resolve_from (seg # segs) stack =
     (if seg = [] \<or> seg = ''.'' then resolve_from segs stack
      else if seg = ''..'' then resolve_from segs (tl stack)
      else resolve_from segs (seg # stack))"

definition resolve :: "string \<Rightarrow> string list" where
  "resolve path = resolve_from (str_split path CHR ''/'') []"

text \<open>
  The file system is a map from resolved paths to the contents of the regular files
  (\<open>isFile\<close> is false for everything else): two path strings that resolve alike
  name the same file. What the patcher prints, writes and runs is recorded in
  order; a write is recorded with the path string it was given.
\<close>

datatype event =
    Info string
  | ErrorLog string
  | WriteFile string string
  | ExecFile string "string list"
  | Exit nat

text \<open>
  The runtime's part, taken as parameters: \<open>JSON.parse\<close> (\<open>None\<close> is its
  \<open>SyntaxError\<close>), \<open>JSON.stringify\<close>, what \<open>writeFileSync\<close> does with data that
  is \<open>undefined\<close> (Node before v14 writes the coerced string \<open>undefined\<close>, later
  versions throw a \<open>TypeError\<close>), and what the \<open>ls-control\<close> run calls back with.
\<close>

record runtime =
  json_parse :: "string \<Rightarrow> jsval option"
  json_stringify :: "jsval \<Rightarrow> string"
  coerces_data :: bool
  rescan_error :: "js_error option"
  rescan_stdout :: string
  rescan_stderr :: string

record pstate =
  files :: "string list \<rightharpoonup> string"
  out :: "event list"
  configChanged :: bool
  thrown :: "js_error option"

definition info :: "string \<Rightarrow> pstate \<Rightarrow> pstate" where
  "info m s = s\<lparr>out := out s @ [Info m]\<rparr>"

definition isFile :: "pstate \<Rightarrow> string \<Rightarrow> bool" where
  "isFile s path = (files s (resolve path) \<noteq> None)"

definition readFileSync :: "pstate \<Rightarrow> string \<Rightarrow> js_error + string" where
  "readFileSync s path =
     (case files s (resolve path) of
        None \<Rightarrow> Inl (JsSystemError ''ENOENT'' (''ENOENT: no such file or directory, open '' @ path))
      | Some c \<Rightarrow> Inr c)"

text \<open>\<open>writeFileSync(path, data)\<close>; \<open>data\<close> is \<open>None\<close> when the source passes
  \<open>undefined\<close>.\<close>

definition writeFileSync :: "runtime \<Rightarrow> string \<Rightarrow> string option \<Rightarrow> pstate \<Rightarrow> js_error option \<times> pstate" where
  "writeFileSync rt path data s =
     (case data of
        Some d \<Rightarrow> (None, s\<lparr>files := (files s)(resolve path \<mapsto> d), out := out s @ [WriteFile path d]\<rparr>)
      | None \<Rightarrow>
          if coerces_data rt
          then (None, s\<lparr>files := (files s)(resolve path \<mapsto> ''undefined''),
                         out := out s @ [WriteFile path ''undefined'']\<rparr>)
          else (Some (JsTypeError ''The data argument must be of type string or an instance of Buffer''), s))"

text \<open>How \<open>console.info('-', x)\<close> prints an optional string.\<close>

fun shown :: "string option \<Rightarrow> string" where
  "shown None = ''undefined''"
| "shown (Some s) = s"

text \<open>\<open>patchServiceFile(serviceFile, appName?, serviceName?)\<close>. The local
  \<open>serviceFileNew\<close> is \<open>None\<close> while it is unassigned.\<close>

definition serviceFileNew :: "string \<Rightarrow> string option \<Rightarrow> string option \<Rightarrow> string option" where
  "serviceFileNew original appName serviceName =
     (if \<not> str_includes original ''jailer''
      then Some (str_replace original ''/usr/bin''
                   ''/media/developer/apps/usr/palm/services/org.webosbrew.hbchannel.service'')
      else if truthy_arg appName \<and> truthy_arg serviceName
      then Some (str_replace original
                   (''/usr/bin/jailer -t native_devmode -i '' @ the appName
                      @ '' -p /media/developer/apps/usr/palm/services/'' @ the serviceName @ '' '')
                   '''')
      else None)"

definition patchLog :: "string \<Rightarrow> string option \<Rightarrow> string option \<Rightarrow> pstate \<Rightarrow> pstate" where
  "patchLog original appName serviceName s =
     (if \<not> str_includes original ''jailer''
      then info ''[ ] Updating a NodeJS-Service.'' s
      else if truthy_arg appName \<and> truthy_arg serviceName
      then info ''[ ] Updating a Native-Service.'' s
      else info ''[!] Updating Native-Service failed! Didn't got Application or Service name.''
             (info ''[ ] Updating a Native-Service.'' s))"

definition patchServiceFile ::
  "runtime \<Rightarrow> string \<Rightarrow> string option \<Rightarrow> string option \<Rightarrow> pstate \<Rightarrow> (js_error + bool) \<times> pstate" where
  "patchServiceFile rt serviceFile appName serviceName s =
     (case readFileSync s serviceFile of
        Inl e \<Rightarrow> (Inl e, s)
      | Inr original \<Rightarrow>
          let new = serviceFileNew original appName serviceName;
              s1 = patchLog original appName serviceName s
          in if new \<noteq> Some original
             then (case writeFileSync rt serviceFile new
                          (info (''+ '' @ shown new)
                            (info (''- '' @ original)
                              (info (''[ ] Updating service definition: '' @ serviceFile) s1))) of
                     (Some e, s2) \<Rightarrow> (Inl e, s2)
                   | (None, s2) \<Rightarrow> (Inr True, s2))
             else (Inr False, s1))"

text \<open>The first lines of \<open>main\<close>: the destructuring defaults of \<open>argv\<close>
  (\<open>slice(0, -1)\<close> is \<open>butlast\<close>) and the special case of the bare application id.\<close>

definition resolveNames :: "string list \<Rightarrow> string \<times> string" where
  "resolveNames argv =
     (let serviceName = (case argv of [] \<Rightarrow> ''org.webosbrew.hbchannel.service'' | a # _ \<Rightarrow> a);
          appName = (case drop 1 argv of
                       [] \<Rightarrow> str_join (butlast (str_split serviceName CHR ''.'')) ''.''
                     | b # _ \<Rightarrow> b)
      in if serviceName = ''org.webosbrew.hbchannel''
         then (''org.webosbrew.hbchannel.service'', ''org.webosbrew.hbchannel'')
         else (serviceName, appName))"

definition serviceFile :: "string \<Rightarrow> string" where
  "serviceFile serviceName = ''/var/luna-service2-dev/services.d/'' @ serviceName @ ''.service''"

definition clientPermFile :: "string \<Rightarrow> string" where
  "clientPermFile serviceName =
     ''/var/luna-service2-dev/client-permissions.d/'' @ serviceName @ ''.root.json''"

definition apiPermFile :: "string \<Rightarrow> string" where
  "apiPermFile serviceName =
     ''/var/luna-service2-dev/client-permissions.d/'' @ serviceName @ ''.api.public.json''"

definition manifestFile :: "string \<Rightarrow> string" where
  "manifestFile appName = ''/var/luna-service2-dev/manifests.d/'' @ appName @ ''.json''"

definition roleFile :: "string \<Rightarrow> string" where
  "roleFile serviceName = ''/var/luna-service2-dev/roles.d/'' @ serviceName @ ''.service.json''"

definition legacyPubServiceFile :: "string \<Rightarrow> string" where
  "legacyPubServiceFile serviceName = ''/var/palm/ls2-dev/services/pub/'' @ serviceName @ ''.service''"

definition legacyPrvServiceFile :: "string \<Rightarrow> string" where
  "legacyPrvServiceFile serviceName = ''/var/palm/ls2-dev/services/pub/'' @ serviceName @ ''.service''"

definition legacyPrvRolesFile :: "string \<Rightarrow> string" where
  "legacyPrvRolesFile serviceName = ''/var/palm/ls2-dev/roles/prv/'' @ serviceName @ ''.json''"

text \<open>An uncaught exception ends the process: once \<open>thrown\<close> is set, no later
  statement runs.\<close>

definition guard :: "(pstate \<Rightarrow> pstate) \<Rightarrow> pstate \<Rightarrow> pstate" where
  "guard f s = (if thrown s = None then f s else s)"

definition throw :: "js_error \<Rightarrow> pstate \<Rightarrow> pstate" where
  "throw e s = s\<lparr>thrown := Some e\<rparr>"

text \<open>\<open>if (patchServiceFile(...)) { configChanged = true; }\<close>\<close>

definition patchStep :: "runtime \<Rightarrow> string \<Rightarrow> string option \<Rightarrow> string option \<Rightarrow> pstate \<Rightarrow> pstate" where
  "patchStep rt path appName serviceName s =
     (case patchServiceFile rt path appName serviceName s of
        (Inl e, s') \<Rightarrow> throw e s'
      | (Inr b, s') \<Rightarrow> if b then s'\<lparr>configChanged := True\<rparr> else s')"

text \<open>\<open>if (!isFile(permFile)) { console.info(...); writeFileSync(permFile, JSON.stringify(...));
  configChanged = true; }\<close>\<close>

definition createPermFile :: "runtime \<Rightarrow> string \<Rightarrow> string \<Rightarrow> jsval \<Rightarrow> pstate \<Rightarrow> pstate" where
  "createPermFile rt path msg content s =
     (if \<not> isFile s path
      then (case writeFileSync rt path (Some (json_stringify rt content)) (info (msg @ path) s) of
              (Some e, s') \<Rightarrow> throw e s'
            | (None, s') \<Rightarrow> s'\<lparr>configChanged := True\<rparr>)
      else s)"

definition clientPermContent :: "string \<Rightarrow> jsval" where
  "clientPermContent serviceName = JObj [(serviceName @ ''*'', JArr [JStr ''all''])]"

definition apiPermContent :: "string \<Rightarrow> jsval" where
  "apiPermContent serviceName = JObj [(''public'', JArr [JStr (serviceName @ ''/*'')])]"

text \<open>\<open>v.indexOf(x) === -1\<close> on a truthy value: an array compares its elements
  strictly, a string looks for a substring, and anything else has no callable
  \<open>indexOf\<close>.\<close>

fun indexOf_absent :: "jsval \<Rightarrow> string \<Rightarrow> js_error + bool" where
  "indexOf_absent (JArr xs) x = Inr (\<not> list_ex (\<lambda>f. strict_eq_str f x) xs)"
| "indexOf_absent (JStr t) x = Inr (\<not> str_includes t x)"
| "indexOf_absent v x = Inl (JsTypeError ''indexOf is not a function'')"

text \<open>\<open>parsed.field.push(x)\<close>: the array held by the object grows in place; a value
  that is not an array has no \<open>push\<close>.\<close>

fun set_field :: "jsval \<Rightarrow> string \<Rightarrow> jsval \<Rightarrow> jsval" where
  "set_field (JObj kv) k v = JObj (AList.update k v kv)"
| "set_field w k v = w"

fun push_field :: "jsval \<Rightarrow> string \<Rightarrow> jsval \<Rightarrow> jsval \<Rightarrow> js_error + jsval" where
  "push_field parsed field (JArr xs) x = Inr (set_field parsed field (JArr (xs @ [x])))"
| "push_field parsed field v x = Inl (JsTypeError ''push is not a function'')"

text \<open>One of the two manifest amendments:
  \<open>if (parsed.field && parsed.field.indexOf(path) === -1) { console.info(msg); parsed.field.push(path); }\<close>\<close>

definition manifestAdd :: "jsval \<Rightarrow> string \<Rightarrow> string \<Rightarrow> string \<Rightarrow> pstate \<Rightarrow> (js_error + jsval) \<times> pstate" where
  "manifestAdd parsed field path msg s =
     (case get_prop parsed field of
        Inl e \<Rightarrow> (Inl e, s)
      | Inr v \<Rightarrow>
          if \<not> truthy v then (Inr parsed, s)
          else (case indexOf_absent v path of
                  Inl e \<Rightarrow> (Inl e, s)
                | Inr False \<Rightarrow> (Inr parsed, s)
                | Inr True \<Rightarrow> (push_field parsed field v (JStr path), info msg s)))"

text \<open>The common tail of the manifest and role blocks: stringify, compare with the
  text read, and write only on a difference.\<close>

definition writeIfChanged :: "runtime \<Rightarrow> string \<Rightarrow> string \<Rightarrow> string \<Rightarrow> string \<Rightarrow> pstate \<Rightarrow> pstate" where
  "writeIfChanged rt msg path original new s =
     (if new \<noteq> original
      then (case writeFileSync rt path (Some new)
                   (info (''+ '' @ new) (info (''- '' @ original) (info (msg @ path) s))) of
              (Some e, s') \<Rightarrow> throw e s'
            | (None, s') \<Rightarrow> s'\<lparr>configChanged := True\<rparr>)
      else s)"

definition manifestStep :: "runtime \<Rightarrow> string \<Rightarrow> string \<Rightarrow> pstate \<Rightarrow> pstate" where
  "manifestStep rt serviceName appName s =
     (if isFile s (manifestFile appName)
      then
        let s1 = info (''[~] Found webOS 4.x+ manifest file: '' @ manifestFile appName) s in
        (case readFileSync s1 (manifestFile appName) of
           Inl e \<Rightarrow> throw e s1
         | Inr original \<Rightarrow>
            (case json_parse rt original of
               None \<Rightarrow> throw (JsSyntaxError ''Unexpected token in JSON'') s1
             | Some parsed \<Rightarrow>
                (case manifestAdd parsed ''clientPermissionFiles'' (clientPermFile serviceName)
                        ''[ ] manifest - adding client permissions file...'' s1 of
                   (Inl e, s2) \<Rightarrow> throw e s2
                 | (Inr parsed1, s2) \<Rightarrow>
                    (case manifestAdd parsed1 ''apiPermissionFiles'' (apiPermFile serviceName)
                            ''[ ] manifest - adding API permissions file...'' s2 of
                       (Inl e, s3) \<Rightarrow> throw e s3
                     | (Inr parsed2, s3) \<Rightarrow>
                        writeIfChanged rt ''[~] Updating manifest file: '' (manifestFile appName)
                          original (json_stringify rt parsed2) s3))))
      else s)"

text \<open>The role amendment. \<open>arr.some(function (finding) { return finding === "*"; })\<close>
  is used for \<open>allowedNames\<close> and, with the same callback, for \<open>permissions\<close>.\<close>

fun some_is_wildcard :: "jsval \<Rightarrow> js_error + bool" where
  "some_is_wildcard (JArr xs) = Inr (list_ex (\<lambda>finding. strict_eq_str finding ''*'') xs)"
| "some_is_wildcard v = Inl (JsTypeError ''some is not a function'')"

definition wildcardPermission :: jsval where
  "wildcardPermission =
     JObj [(''service'', JStr ''*''), (''outbound'', JArr [JStr ''*'']), (''inbound'', JArr [JStr ''*''])]"

definition ensureWildcard :: "jsval \<Rightarrow> string \<Rightarrow> jsval \<Rightarrow> string \<Rightarrow> string \<Rightarrow> pstate \<Rightarrow> (js_error + jsval) \<times> pstate" where
  "ensureWildcard parsed field x msg_present msg_push s =
     (case get_prop parsed field of
        Inl e \<Rightarrow> (Inl e, s)
      | Inr v \<Rightarrow>
         (case some_is_wildcard v of
            Inl e \<Rightarrow> (Inl e, s)
          | Inr True \<Rightarrow> (Inr parsed, info msg_present s)
          | Inr False \<Rightarrow> (push_field parsed field v x, info msg_push s)))"

definition amendRole :: "jsval \<Rightarrow> pstate \<Rightarrow> (js_error + jsval) \<times> pstate" where
  "amendRole parsed s =
     (case ensureWildcard parsed ''allowedNames'' (JStr ''*'')
             ''[ ] role - already containing wildcard for allowed names.''
             ''[ ] role - pushing wildcard for allowed names to file...'' s of
        (Inl e, s1) \<Rightarrow> (Inl e, s1)
      | (Inr parsed1, s1) \<Rightarrow>
          ensureWildcard parsed1 ''permissions'' wildcardPermission
            ''[ ] role - already containing wildcard for service permissions.''
            ''[ ] role - pushing wildcard for service permissions to file...'' s1)"

definition roleStep :: "runtime \<Rightarrow> string \<Rightarrow> pstate \<Rightarrow> pstate" where
  "roleStep rt serviceName s =
     (if isFile s (roleFile serviceName)
      then
        let s1 = info (''[~] Found webOS 4.x+ role file: '' @ roleFile serviceName) s in
        (case readFileSync s1 (roleFile serviceName) of
           Inl e \<Rightarrow> throw e s1
         | Inr original \<Rightarrow>
            (case json_parse rt original of
               None \<Rightarrow> throw (JsSyntaxError ''Unexpected token in JSON'') s1
             | Some parsed \<Rightarrow>
                (case amendRole parsed s1 of
                   (Inl e, s2) \<Rightarrow> throw e s2
                 | (Inr parsed2, s2) \<Rightarrow>
                    writeIfChanged rt ''[~] Updating role file: '' (roleFile serviceName)
                      original (json_stringify rt parsed2) s2)))
      else s)"

text \<open>The block for the current layout, entered when the service file exists.\<close>

definition epoch3 :: "runtime \<Rightarrow> string \<Rightarrow> string \<Rightarrow> pstate \<Rightarrow> pstate" where
  "epoch3 rt serviceName appName s =
     (if isFile s (serviceFile serviceName)
      then
        guard (roleStep rt serviceName)
          (guard (manifestStep rt serviceName appName)
            (guard (createPermFile rt (apiPermFile serviceName)
                      ''[ ] Creating API permissions file: '' (apiPermContent serviceName))
              (guard (createPermFile rt (clientPermFile serviceName)
                        ''[ ] Creating client permissions file: '' (clientPermContent serviceName))
                (patchStep rt (serviceFile serviceName) (Some appName) (Some serviceName)
                  (info (''[~] Found webOS 3.x+ service file: '' @ serviceFile serviceName) s)))))
      else s)"

text \<open>The block for the legacy layout. Both descriptor calls pass no names, and the
  private descriptor's path is built exactly as the public one's.\<close>

definition legacyRoleStep :: "runtime \<Rightarrow> string \<Rightarrow> pstate \<Rightarrow> pstate" where
  \<open>legacyRoleStep rt serviceName s =
     (if isFile s (legacyPrvRolesFile serviceName)
      then (case readFileSync s (legacyPrvRolesFile serviceName) of
              Inl e \<Rightarrow> throw e s
            | Inr prvRolesOriginal \<Rightarrow>
                writeIfChanged rt ''[ ] Updating service definition: '' (legacyPrvRolesFile serviceName)
                  prvRolesOriginal
                  (str_replace prvRolesOriginal ''"outbound":[]'' ''"outbound":["*"]'') s)
      else s)\<close>

definition legacy :: "runtime \<Rightarrow> string \<Rightarrow> pstate \<Rightarrow> pstate" where
  "legacy rt serviceName s =
     (if isFile s (legacyPubServiceFile serviceName)
      then
        guard (legacyRoleStep rt serviceName)
          (guard (patchStep rt (legacyPrvServiceFile serviceName) None None)
            (patchStep rt (legacyPubServiceFile serviceName) None None
              (info (''[~] Found legacy webOS <3.x service file: '' @ legacyPubServiceFile serviceName) s)))
      else s)"

text \<open>The end of \<open>main\<close>: the rescan, run only after a change. \<open>execFile\<close>
  calls back with the error, the standard output and the standard error; the
  callback names the last two \<open>stderr\<close> and \<open>stdout\<close>, and prints its \<open>stdout\<close>
  first, each only when it is not empty.\<close>

definition rescan :: "runtime \<Rightarrow> pstate \<Rightarrow> pstate" where
  "rescan rt s =
     (if configChanged s
      then
        let s1 = info ''[+] Refreshing services...'' s;
            s2 = s1\<lparr>out := out s1 @ [ExecFile ''ls-control'' [''scan-services'']]\<rparr>
        in (case rescan_error rt of
              Some e \<Rightarrow> s2\<lparr>out := out s2 @ [ErrorLog (toString e), Exit 1]\<rparr>
            | None \<Rightarrow>
                s2\<lparr>out := out s2 @ (if rescan_stderr rt \<noteq> [] then [Info (rescan_stderr rt)] else [])
                                  @ (if rescan_stdout rt \<noteq> [] then [Info (rescan_stdout rt)] else [])
                                  @ [Exit 0]\<rparr>)
      else info ''[-] No changes, no rescan needed'' s)"

definition main :: "runtime \<Rightarrow> string list \<Rightarrow> (string list \<rightharpoonup> string) \<Rightarrow> pstate" where
  "main rt argv fs =
     (case resolveNames argv of
        (serviceName, appName) \<Rightarrow>
          guard (rescan rt)
            (guard (legacy rt serviceName)
              (epoch3 rt serviceName appName
                 \<lparr>files = fs, out = [], configChanged = False, thrown = None\<rparr>)))"


section \<open>The control service (service.ts)\<close>

subsection \<open>Identity, payloads and the response envelope\<close>

text \<open>The two manifests (\<open>appinfo.json\<close>, \<open>services.json\<close>) are static data that the
  service reads its ids from; they are parameters here.\<close>

record identity =
  rootAppInfo_id :: string
  serviceInfo_id :: string

definition kHomebrewChannelPackageId :: "identity \<Rightarrow> string" where
  "kHomebrewChannelPackageId idn = rootAppInfo_id idn"

text \<open>A bus payload is a JSON object; reading a field it lacks gives \<open>undefined\<close>.\<close>

type_synonym payload = "(string \<times> jsval) list"

definition field :: "payload \<Rightarrow> string \<Rightarrow> jsval" where
  "field p k = (case map_of p k of None \<Rightarrow> JUndefined | Some v \<Rightarrow> v)"

text \<open>\<open>{...a, ...b}\<close>: the fields of \<open>a\<close>, then those of \<open>b\<close>, a later value
  replacing an earlier one of the same name.\<close>

definition merge :: "payload \<Rightarrow> payload \<Rightarrow> payload" where
  "merge a b = fold (\<lambda>(k, v). AList.update k v) b a"

text \<open>What the spread of a handler's return value contributes: the fields of an
  object, and nothing for \<open>undefined\<close> or a boolean.\<close>

fun fields_of :: "jsval \<Rightarrow> payload" where
  "fields_of (JObj kv) = kv"
| "fields_of v = []"

text \<open>Modelled from the spec: the Response Envelope Helper (\<open>protocol.ts\<close>, imported by
  \<open>service.ts\<close> and absent from the sources). \<open>makeSuccess(fields)\<close> merges
  \<open>{returnValue: true}\<close> with the given fields; \<open>makeError(message, extraFields = {})\<close>
  merges \<open>{returnValue: false, errorText: message}\<close> with any extra fields.\<close>

definition makeSuccess :: "jsval \<Rightarrow> jsval" where
  "makeSuccess reply = JObj (merge [(''returnValue'', JBool True)] (fields_of reply))"

definition makeError :: "string \<Rightarrow> payload \<Rightarrow> jsval" where
  "makeError msg extra = JObj (merge [(''returnValue'', JBool False), (''errorText'', JStr msg)] extra)"

text \<open>A number in decimal, as a template literal prints \<open>Date.now()\<close>.\<close>

function decimal :: "nat \<Rightarrow> string" where
  "decimal n = (if n < 10 then [char_of (48 + n)] else decimal (n div 10) @ [char_of (48 + n mod 10)])"
  by pat_completeness auto
termination
  by (relation "measure id") auto

declare decimal.simps [simp del]

text \<open>\<open>`${v}`\<close>: how a template literal prints a value.\<close>

fun js_string :: "jsval \<Rightarrow> string" where
  "js_string JUndefined = ''undefined''"
| "js_string JNull = ''null''"
| "js_string (JBool b) = (if b then ''true'' else ''false'')"
| "js_string (JNum n) = (if n < 0 then ''-'' @ decimal (nat (- n)) else decimal (nat n))"
| "js_string (JStr s) = s"
| "js_string (JArr xs) =
     str_join (map (\<lambda>x. if x = JNull \<or> x = JUndefined then [] else js_string x) xs) '',''"
| "js_string (JObj kv) = ''[object Object]''"


subsection \<open>The world outside and the state of the service\<close>

record http_response =
  ok :: bool
  statusText :: string
  body :: string

text \<open>What arrives on a subscription: a response, or the bus's cancellation.\<close>

datatype bus_msg = Response payload | Cancelled jsval

text \<open>What \<open>child_process.exec\<close> calls back with: the error (\<open>null\<close> exactly when the
  command ran and exited with code 0; otherwise an \<open>Error\<close> with its message and its
  own fields), and the two captured buffers.\<close>

record exec_outcome =
  exec_error :: "(string \<times> payload) option"
  stdout :: string
  stderr :: string

text \<open>What a spawned process emits.\<close>

datatype proc_event =
    StdoutData string
  | StderrData string
  | Close jsval
  | ExitCode jsval

text \<open>Everything the service asks of its surroundings, as parameters: the process's
  uid, clock and directory, the HTTP fetch, the progress ticks and the fault (with the
  bytes written before it) of the download copy, the digest of \<open>crypto\<close>, the messages
  of the platform installer, the replies to one-shot bus calls (\<open>None\<close>: no reply),
  the results of subprocesses (for \<open>exec\<close>, \<open>None\<close>: the command never ends and
  \<open>child_process.exec\<close>, which is given no timeout, never calls back),
  \<open>Buffer.toString(encoding)\<close>, and the faults of the file system other than a
  missing file. The paths the service builds are in resolved form, so its files are
  keyed by the path strings.\<close>

record world =
  uid :: nat
  now :: nat
  dirname :: string
  fetch_result :: "string \<Rightarrow> js_error + http_response"
  percentages :: "jsval list"
  copy_fault :: "(js_error \<times> string) option"
  digest :: "string \<Rightarrow> string \<Rightarrow> string"
  install_msgs :: "bus_msg list"
  call_reply :: "string \<Rightarrow> payload \<Rightarrow> payload option"
  execFile_result :: "string \<Rightarrow> string list \<Rightarrow> js_error + string"
  exec_result :: "string \<Rightarrow> exec_outcome option"
  spawn_events :: "string \<Rightarrow> proc_event list"
  buffer_toString :: "string \<Rightarrow> string \<Rightarrow> string"
  write_fault :: "string \<Rightarrow> js_error option"
  unlink_fault :: "string \<Rightarrow> js_error option"

text \<open>The bus handle a privileged call goes through: the service itself, or the
  remote proxy.\<close>

datatype handle = Local | Remote

datatype sevent =
    Respond jsval
  | Cancel jsval
  | Fetch string
  | CreateWriteStream string
  | Subscribe handle string payload
  | CancelSubscription
  | Call handle string payload
  | ExecFileP string "string list"
  | Exec string
  | Spawn string "string list"
  | WriteFileA string string
  | Unlink string
  | ConsoleInfo string
  | ConsoleInfoPayload string payload
  | ConsoleError string

record sstate =
  sfiles :: "string \<rightharpoonup> string"
  trace :: "sevent list"
  idleTimeout :: nat

text \<open>An awaited operation: it settles with an error or a result (\<open>None\<close>: it never
  settles), and leaves a state. \<open>andThen\<close> is \<open>await\<close> followed by the rest.\<close>

type_synonym 'a step = "sstate \<Rightarrow> (js_error + 'a) option \<times> sstate"

definition ret :: "'a \<Rightarrow> 'a step" where
  "ret x s = (Some (Inr x), s)"

definition throwE :: "js_error \<Rightarrow> 'a step" where
  "throwE e s = (Some (Inl e), s)"

definition andThen :: "'a step \<Rightarrow> ('a \<Rightarrow> 'b step) \<Rightarrow> 'b step" where
  "andThen m f s =
     (case m s of
        (None, s') \<Rightarrow> (None, s')
      | (Some (Inl e), s') \<Rightarrow> (Some (Inl e), s')
      | (Some (Inr x), s') \<Rightarrow> f x s')"

definition emit :: "sevent \<Rightarrow> unit step" where
  "emit ev s = (Some (Inr ()), s\<lparr>trace := trace s @ [ev]\<rparr>)"

definition respond :: "jsval \<Rightarrow> unit step" where
  "respond v = emit (Respond v)"

definition runningAsRoot :: "world \<Rightarrow> bool" where
  "runningAsRoot w = (uid w = 0)"

definition getInstallerService :: "world \<Rightarrow> handle" where
  "getInstallerService w = (if runningAsRoot w then Local else Remote)"

text \<open>\<open>asyncCall(srv, uri, args)\<close>: resolved with the reply when its \<open>returnValue\<close>
  is truthy, rejected with it otherwise.\<close>

definition asyncCall :: "world \<Rightarrow> handle \<Rightarrow> string \<Rightarrow> payload \<Rightarrow> payload step" where
  "asyncCall w srv uri args s =
     (let s1 = s\<lparr>trace := trace s @ [Call srv uri args]\<rparr> in
      case call_reply w uri args of
        None \<Rightarrow> (None, s1)
      | Some reply \<Rightarrow>
          if truthy (field reply ''returnValue'') then (Some (Inr reply), s1)
          else (Some (Inl (JsRejected (JObj reply))), s1))"

definition createToast :: "identity \<Rightarrow> world \<Rightarrow> string \<Rightarrow> payload step" where
  "createToast idn w message =
     asyncCall w Local ''luna://com.webos.notification/createToast''
       [(''sourceId'', JStr (serviceInfo_id idn)), (''message'', JStr message)]"

text \<open>\<open>hashFile(filePath, algorithm)\<close>: the file is piped into the hash.\<close>

definition hashFile :: "world \<Rightarrow> string \<Rightarrow> string \<Rightarrow> string step" where
  "hashFile w filePath algorithm s =
     (case sfiles s filePath of
        None \<Rightarrow> (Some (Inl (JsSystemError ''ENOENT'' (''ENOENT: no such file or directory, open '' @ filePath))), s)
      | Some content \<Rightarrow> (Some (Inr (digest w algorithm content)), s))"

definition asyncExecFile :: "world \<Rightarrow> string \<Rightarrow> string list \<Rightarrow> string step" where
  "asyncExecFile w file args s =
     (case execFile_result w file args of
        Inl e \<Rightarrow> (Some (Inl e), s\<lparr>trace := trace s @ [ExecFileP file args]\<rparr>)
      | Inr output \<Rightarrow> (Some (Inr output), s\<lparr>trace := trace s @ [ExecFileP file args]\<rparr>))"

text \<open>\<open>elevateService(pkg)\<close>: the patcher is run only by a root process.\<close>

definition elevateService :: "world \<Rightarrow> string \<Rightarrow> unit step" where
  "elevateService w pkg =
     (if runningAsRoot w
      then andThen (emit (ConsoleInfo ''Elevating service...''))
             (\<lambda>_. andThen (asyncExecFile w (dirname w @ ''/elevate-service'') [pkg]) (\<lambda>_. ret ()))
      else emit (ConsoleError ''Trying to elevate service without running as root. Skipping.''))"


subsection \<open>Feature flags\<close>

definition availableFlags :: "(string \<times> string) list" where
  "availableFlags =
     [(''telnetDisabled'', ''webosbrew_telnet_disabled''),
      (''failsafe'', ''webosbrew_failsafe''),
      (''sshdEnabled'', ''webosbrew_sshd_enabled''),
      (''blockUpdates'', ''webosbrew_block_updates'')]"

text \<open>\<open>availableFlags\<close> is a plain object literal, so \<open>availableFlags[field]\<close> is
  \<open>undefined\<close> only for a name that neither the literal nor \<open>Object.prototype\<close>
  defines. What is found under an inherited name is a function, or the prototype
  itself under \<open>__proto__\<close>; the flag name is used only inside the template literal
  of \<open>flagPath\<close>, so it is kept as the string that literal prints.\<close>

definition objectPrototype :: "(string \<times> string) list" where
  "objectPrototype =
     [(''constructor'', ''function Object() { [native code] }''),
      (''hasOwnProperty'', ''function hasOwnProperty() { [native code] }''),
      (''isPrototypeOf'', ''function isPrototypeOf() { [native code] }''),
      (''propertyIsEnumerable'', ''function propertyIsEnumerable() { [native code] }''),
      (''toLocaleString'', ''function toLocaleString() { [native code] }''),
      (''toString'', ''function toString() { [native code] }''),
      (''valueOf'', ''function valueOf() { [native code] }''),
      (''__defineGetter__'', ''function __defineGetter__() { [native code] }''),
      (''__defineSetter__'', ''function __defineSetter__() { [native code] }''),
      (''__lookupGetter__'', ''function __lookupGetter__() { [native code] }''),
      (''__lookupSetter__'', ''function __lookupSetter__() { [native code] }''),
      (''__proto__'', ''[object Object]'')]"

definition flagNameOf :: "string \<Rightarrow> string option" where
  "flagNameOf fld =
     (case map_of availableFlags fld of
        Some flagName \<Rightarrow> Some flagName
      | None \<Rightarrow> map_of objectPrototype fld)"

definition flagPath :: "string \<Rightarrow> string" where
  "flagPath flag = ''/var/luna/preferences/'' @ flag"

text \<open>The adapter (\<open>adapter.ts\<close>) exports \<open>asyncPipeline\<close>, \<open>asyncExecFile\<close>,
  \<open>asyncStat\<close>, \<open>asyncUnlink\<close> and \<open>asyncWriteFile\<close>. \<open>service.ts\<close> imports
  \<open>asyncAccess\<close> from it, which the adapter does not export: the binding is
  \<open>undefined\<close>, and calling it throws a \<open>TypeError\<close>.\<close>

definition asyncAccess :: "string \<Rightarrow> unit step" where
  "asyncAccess path = throwE (JsTypeError ''asyncAccess is not a function'')"

definition asyncWriteFile :: "world \<Rightarrow> string \<Rightarrow> string \<Rightarrow> unit step" where
  "asyncWriteFile w path contents s =
     (let s1 = s\<lparr>trace := trace s @ [WriteFileA path contents]\<rparr> in
      case write_fault w path of
        Some e \<Rightarrow> (Some (Inl e), s1)
      | None \<Rightarrow> (Some (Inr ()), s1\<lparr>sfiles := (sfiles s1)(path \<mapsto> contents)\<rparr>))"

definition asyncUnlink :: "world \<Rightarrow> string \<Rightarrow> unit step" where
  "asyncUnlink w path s =
     (let s1 = s\<lparr>trace := trace s @ [Unlink path]\<rparr> in
      case unlink_fault w path of
        Some e \<Rightarrow> (Some (Inl e), s1)
      | None \<Rightarrow>
         (case sfiles s1 path of
            None \<Rightarrow> (Some (Inl (JsSystemError ''ENOENT'' (''ENOENT: no such file or directory, unlink '' @ path))), s1)
          | Some c \<Rightarrow> (Some (Inr ()), s1\<lparr>sfiles := (sfiles s1)(path := None)\<rparr>)))"

text \<open>\<open>err.code\<close>\<close>

fun error_code :: "js_error \<Rightarrow> jsval" where
  "error_code (JsSystemError c m) = JStr c"
| "error_code e = JUndefined"

text \<open>\<open>flagRead\<close>: \<open>try { await asyncAccess(flagPath(flag)); return true; } catch (err) { return false; }\<close>\<close>

definition flagRead :: "string \<Rightarrow> bool step" where
  "flagRead flag s =
     (case asyncAccess (flagPath flag) s of
        (None, s') \<Rightarrow> (None, s')
      | (Some (Inl err), s') \<Rightarrow> (Some (Inr False), s')
      | (Some (Inr u), s') \<Rightarrow> (Some (Inr True), s'))"

definition flagSet :: "world \<Rightarrow> string \<Rightarrow> bool \<Rightarrow> bool step" where
  "flagSet w flag enabled =
     (if enabled
      then andThen (asyncWriteFile w (flagPath flag) ''1'') (\<lambda>_. flagRead flag)
      else andThen
             (\<lambda>s. case asyncUnlink w (flagPath flag) s of
                     (Some (Inl err), s') \<Rightarrow>
                        if error_code err \<noteq> JStr ''ENOENT'' then (Some (Inl err), s')
                        else (Some (Inr ()), s')
                   | r \<Rightarrow> r)
             (\<lambda>_. flagRead flag))"

text \<open>\<open>Promise.all\<close> over operations that have all been started: every one of them
  runs; the result is the list of their results, or a rejection if one of them
  rejects (here the first in list order), or nothing if one never settles.\<close>

fun promiseAll :: "'a step list \<Rightarrow> 'a list step" where
  "promiseAll [] s = (Some (Inr []), s)"
| "promiseAll (m # ms) s =
     (case m s of (r, s1) \<Rightarrow>
        (case promiseAll ms s1 of (rs, s2) \<Rightarrow>
           ((case r of
               Some (Inl e) \<Rightarrow> Some (Inl e)
             | Some (Inr x) \<Rightarrow>
                 (case rs of Some (Inl e) \<Rightarrow> Some (Inl e) | Some (Inr xs) \<Rightarrow> Some (Inr (x # xs)) | None \<Rightarrow> None)
             | None \<Rightarrow> (case rs of Some (Inl e) \<Rightarrow> Some (Inl e) | _ \<Rightarrow> None)),
            s2)))"

text \<open>\<open>Object.fromEntries\<close>\<close>

definition fromEntries :: "(string \<times> jsval) list \<Rightarrow> payload" where
  "fromEntries es = merge [] es"

definition getConfiguration :: "world \<Rightarrow> jsval step" where
  "getConfiguration w =
     andThen
       (promiseAll (map (\<lambda>(fld, flagName).
            andThen (flagRead flagName) (\<lambda>b. ret (fld, JBool b))) availableFlags))
       (\<lambda>flags. ret (JObj (merge [(''root'', JBool (uid w = 0))] (fromEntries flags))))"

text \<open>\<open>setConfiguration\<close>: the payload is a \<open>Record<string, boolean>\<close>; an entry for
  which \<open>availableFlags[field]\<close> is \<open>undefined\<close> is filtered out.\<close>

definition setConfiguration :: "world \<Rightarrow> (string \<times> bool) list \<Rightarrow> jsval step" where
  "setConfiguration w payload =
     andThen
       (promiseAll
          (map (\<lambda>(fld, flagName, v). andThen (flagSet w (the flagName) v) (\<lambda>b. ret (fld, JBool b)))
             (filter (\<lambda>(fld, flagName, v). flagName \<noteq> None)
                (map (\<lambda>(fld, v). (fld, flagNameOf fld, v)) payload))))
       (\<lambda>flags. ret (JObj (fromEntries flags)))"


subsection \<open>Installing a package\<close>

record InstallPayload =
  ipkUrl :: string
  ipkHash :: string

definition targetPath :: "world \<Rightarrow> string" where
  "targetPath w = ''/tmp/.hbchannel-incoming-'' @ decimal (now w) @ ''.ipk''"

text \<open>The status texts end in a horizontal ellipsis (U+2026), here in UTF-8.\<close>

definition ellipsis :: string where
  "ellipsis = [CHR 0xE2, CHR 0x80, CHR 0xA6]"

definition fetch :: "world \<Rightarrow> string \<Rightarrow> http_response step" where
  "fetch w url s = (Some (fetch_result w url), s\<lparr>trace := trace s @ [Fetch url]\<rparr>)"

text \<open>The download: the target file is created, the progress reporter answers once
  per tick, and the copy either completes with the body in the file or fails with
  what was written so far.\<close>

definition download :: "world \<Rightarrow> http_response \<Rightarrow> string \<Rightarrow> unit step" where
  "download w res path s =
     (let s1 = s\<lparr>sfiles := (sfiles s)(path \<mapsto> []), trace := trace s @ [CreateWriteStream path]\<rparr>;
          s2 = s1\<lparr>trace := trace s1 @
                  map (\<lambda>p. Respond (JObj [(''statusText'', JStr (''Downloading'' @ ellipsis)), (''progress'', p)]))
                    (percentages w)\<rparr>
      in case copy_fault w of
           Some (e, written) \<Rightarrow> (Some (Inl e), s2\<lparr>sfiles := (sfiles s2)(path \<mapsto> written)\<rparr>)
         | None \<Rightarrow> (Some (Inr ()), s2\<lparr>sfiles := (sfiles s2)(path \<mapsto> body res)\<rparr>))"

text \<open>\<open>installPackage\<close>: the listener of the subscription, message by message, until
  the promise settles. With no settling message the promise stays pending; an
  exception thrown inside the listener (\<open>details.packageId\<close> with no \<open>details\<close>)
  settles nothing either.\<close>

fun installResponses :: "bus_msg list \<Rightarrow> jsval step" where
  "installResponses [] s = (None, s)"
| "installResponses (Response p # ms) s =
     (let s1 = s\<lparr>trace := trace s @ [ConsoleInfoPayload ''appInstallService response:'' p]\<rparr>;
          s2 = s1\<lparr>trace := trace s1 @ [CancelSubscription]\<rparr>
      in if field p ''returnValue'' = JBool False
         then (Some (Inl (JsError (js_string (field p ''errorCode'') @ '': '' @ js_string (field p ''errorText'')))), s2)
         else if truthy (field p ''details'')
                 \<and> get_prop (field p ''details'') ''errorCode'' \<noteq> Inr JUndefined
         then (Some (Inl (JsError
                  (js_string (case get_prop (field p ''details'') ''errorCode'' of Inr v \<Rightarrow> v | Inl e \<Rightarrow> JUndefined)
                   @ '': '' @
                   js_string (case get_prop (field p ''details'') ''reason'' of Inr v \<Rightarrow> v | Inl e \<Rightarrow> JUndefined)))), s2)
         else if field p ''statusValue'' = JNum 30
         then (case get_prop (field p ''details'') ''packageId'' of
                 Inl e \<Rightarrow> (None, s1)
               | Inr v \<Rightarrow> (Some (Inr v), s2))
         else installResponses ms s1)"
| "installResponses (Cancelled v # ms) s =
     (Some (Inl (JsError
        (case get_prop v ''errorText'' of
           Inr t \<Rightarrow> if truthy v \<and> truthy t then js_string t else ''cancelled''
         | Inl e \<Rightarrow> ''cancelled''))), s)"

definition installPackage :: "world \<Rightarrow> string \<Rightarrow> jsval step" where
  "installPackage w filePath s =
     installResponses (install_msgs w)
       (s\<lparr>trace := trace s @
            [Subscribe (getInstallerService w) ''luna://com.webos.appInstallService/dev/install''
               [(''id'', JStr ''testing''), (''ipkUrl'', JStr filePath), (''subscribe'', JBool True)]]\<rparr>)"

definition setIdleTimeout :: "nat \<Rightarrow> unit step" where
  "setIdleTimeout n s = (Some (Inr ()), s\<lparr>idleTimeout := n\<rparr>)"

text \<open>The end of \<open>install\<close>, from the first toast on.\<close>

definition afterInstall :: "identity \<Rightarrow> world \<Rightarrow> jsval \<Rightarrow> jsval step" where
  "afterInstall idn w installedPackageId =
     andThen (createToast idn w (''Application installed: '' @ js_string installedPackageId)) (\<lambda>_.
     andThen (if installedPackageId = JStr (kHomebrewChannelPackageId idn)
              then andThen (elevateService w (js_string installedPackageId)) (\<lambda>_.
                   andThen (setIdleTimeout 1) (\<lambda>_.
                   andThen (createToast idn w ''Homebrew Channel update finished'') (\<lambda>_. ret ())))
              else ret ()) (\<lambda>_.
     ret (JObj [(''statusText'', JStr ''Finished.''), (''finished'', JBool True)])))"

definition install :: "identity \<Rightarrow> world \<Rightarrow> InstallPayload \<Rightarrow> jsval step" where
  "install idn w payload =
     andThen (respond (JObj [(''statusText'', JStr (''Downloading'' @ ellipsis))])) (\<lambda>_.
     andThen (fetch w (ipkUrl payload)) (\<lambda>res.
     if \<not> ok res then throwE (JsError (statusText res))
     else
     andThen (download w res (targetPath w)) (\<lambda>_.
     andThen (respond (JObj [(''statusText'', JStr (''Verifying'' @ ellipsis))])) (\<lambda>_.
     andThen (hashFile w (targetPath w) ''sha256'') (\<lambda>checksum.
     if checksum \<noteq> ipkHash payload then throwE (JsError ''Invalid file checksum'')
     else
     andThen (respond (JObj [(''statusText'', JStr (''Installing'' @ ellipsis))])) (\<lambda>_.
     andThen (installPackage w (targetPath w)) (\<lambda>installedPackageId.
     afterInstall idn w installedPackageId)))))))"


subsection \<open>The other operations\<close>

definition reboot :: "world \<Rightarrow> jsval step" where
  "reboot w = andThen (asyncExecFile w ''reboot'' []) (\<lambda>_. ret JUndefined)"

definition checkRoot :: "world \<Rightarrow> jsval step" where
  "checkRoot w = ret (JBool (runningAsRoot w))"

text \<open>\<open>apps.find((app) => app.id === appId)\<close>: the first element whose \<open>id\<close> is the
  string asked for; reading \<open>id\<close> of a \<open>null\<close> element throws.\<close>

fun findApp :: "jsval list \<Rightarrow> string \<Rightarrow> js_error + jsval" where
  "findApp [] appId = Inr JUndefined"
| "findApp (app # apps) appId =
     (case get_prop app ''id'' of
        Inl e \<Rightarrow> Inl e
      | Inr v \<Rightarrow> if v = JStr appId then Inr app else findApp apps appId)"

definition getAppInfo :: "world \<Rightarrow> string \<Rightarrow> jsval step" where
  "getAppInfo w appId =
     (if appId = [] then throwE (JsError (''missing '' @ [CHR 0x60] @ ''id'' @ [CHR 0x60] @ '' string field''))
      else andThen (asyncCall w (getInstallerService w) ''luna://com.webos.applicationManager/dev/listApps'' [])
             (\<lambda>appList.
                case field appList ''apps'' of
                  JArr apps \<Rightarrow>
                    (case findApp apps appId of
                       Inl e \<Rightarrow> throwE e
                     | Inr appInfo \<Rightarrow>
                         if \<not> truthy appInfo
                         then throwE (JsError (''Invalid appId, or unsupported application type: '' @ appId))
                         else ret (JObj [(''appId'', JStr appId), (''appInfo'', appInfo)]))
                | other \<Rightarrow> throwE (JsTypeError ''appList.apps.find is not a function'')))"

definition getDrmStatus :: "string \<Rightarrow> jsval step" where
  "getDrmStatus appId =
     ret (JObj [(''appId'', JStr appId), (''drmType'', JStr ''NCG DRM''),
                (''installBasePath'', JStr ''/media/cryptofs''), (''returnValue'', JBool True),
                (''isTimeLimited'', JBool False)])"

text \<open>\<open>exec\<close>: the command is started, and the answer is sent inside the callback
  only, with the same \<open>response\<close> object in both branches. While the command has not
  ended nothing is sent.\<close>

definition execResponse :: "world \<Rightarrow> exec_outcome \<Rightarrow> payload" where
  "execResponse w r =
     [(''error'', (case exec_error r of None \<Rightarrow> JNull | Some (msg, own) \<Rightarrow> JObj own)),
      (''stdoutString'', JStr (buffer_toString w ''utf8'' (stdout r))),
      (''stdoutBytes'', JStr (buffer_toString w ''base64'' (stdout r))),
      (''stderrString'', JStr (buffer_toString w ''utf8'' (stderr r))),
      (''stderrBytes'', JStr (buffer_toString w ''base64'' (stderr r)))]"

definition exec :: "world \<Rightarrow> string \<Rightarrow> sstate \<Rightarrow> sstate" where
  "exec w command s =
     (let s1 = s\<lparr>trace := trace s @ [Exec command]\<rparr>
      in case exec_result w command of
           None \<Rightarrow> s1
         | Some r \<Rightarrow>
            (case exec_error r of
               Some (msg, own) \<Rightarrow> snd (respond (makeError msg (execResponse w r)) s1)
             | None \<Rightarrow> snd (respond (makeSuccess (JObj (execResponse w r))) s1)))"

text \<open>\<open>spawn\<close>: one answer per event of the process.\<close>

fun spawnResponse :: "world \<Rightarrow> proc_event \<Rightarrow> jsval" where
  "spawnResponse w (StdoutData d) =
     JObj (merge [(''event'', JStr ''stdoutData'')]
             [(''stdoutString'', JStr (buffer_toString w ''utf8'' d)),
              (''stdoutBytes'', JStr (buffer_toString w ''base64'' d))])"
| "spawnResponse w (StderrData d) =
     JObj (merge [(''event'', JStr ''stderrData'')]
             [(''stderrString'', JStr (buffer_toString w ''utf8'' d)),
              (''stderrBytes'', JStr (buffer_toString w ''base64'' d))])"
| "spawnResponse w (Close c) = JObj (merge [(''event'', JStr ''close'')] [(''closeCode'', c)])"
| "spawnResponse w (ExitCode c) = JObj (merge [(''event'', JStr ''exit'')] [(''exitCode'', c)])"

definition spawn :: "world \<Rightarrow> string \<Rightarrow> sstate \<Rightarrow> sstate" where
  "spawn w command s =
     s\<lparr>trace := trace s @ [Spawn ''/bin/sh'' [''-c'', command]]
                 @ map (\<lambda>ev. Respond (spawnResponse w ev)) (spawn_events w command)\<rparr>"


subsection \<open>The try/respond wrapper and the registered operations\<close>

text \<open>\<open>tryRespond(runner)(message)\<close>: the reply or the stringified error is sent once
  the runner has settled, and the cancellation last. While the runner is pending,
  neither the \<open>catch\<close> nor the \<open>finally\<close> block runs.\<close>

definition tryRespond :: "('m \<Rightarrow> jsval step) \<Rightarrow> 'm \<Rightarrow> sstate \<Rightarrow> sstate" where
  "tryRespond runner message s =
     (case runner message s of
        (None, s') \<Rightarrow> s'
      | (Some (Inr reply), s') \<Rightarrow>
          s'\<lparr>trace := trace s' @ [Respond (makeSuccess reply), Cancel (JObj [])]\<rparr>
      | (Some (Inl err), s') \<Rightarrow>
          s'\<lparr>trace := trace s' @ [Respond (makeError (toString err) []), Cancel (JObj [])]\<rparr>)"

text \<open>A request: the name of a registered operation with its payload, typed as the
  source declares it (\<open>InstallPayload\<close>, \<open>SetConfigurationPayload\<close>,
  \<open>GetAppInfoPayload\<close>, \<open>ExecPayload\<close>, \<open>GetDrmStatusPayload\<close>).\<close>

datatype request =
    Install InstallPayload
  | GetConfiguration
  | SetConfiguration "(string \<times> bool) list"
  | Reboot
  | CheckRoot
  | GetAppInfo string
  | ExecReq string
  | SpawnReq string
  | GetDrmStatus string

text \<open>\<open>service.register(name, handler)\<close>: what each name is registered with.\<close>

datatype registered = Wrapped "request \<Rightarrow> jsval step" | Plain "sstate \<Rightarrow> sstate"

fun registry :: "identity \<Rightarrow> world \<Rightarrow> request \<Rightarrow> registered" where
  "registry idn w (Install p) = Wrapped (\<lambda>message. install idn w p)"
| "registry idn w GetConfiguration = Wrapped (\<lambda>message. getConfiguration w)"
| "registry idn w (SetConfiguration p) = Wrapped (\<lambda>message. setConfiguration w p)"
| "registry idn w Reboot = Wrapped (\<lambda>message. reboot w)"
| "registry idn w CheckRoot = Wrapped (\<lambda>message. checkRoot w)"
| "registry idn w (GetAppInfo appId) = Wrapped (\<lambda>message. getAppInfo w appId)"
| "registry idn w (ExecReq command) = Plain (exec w command)"
| "registry idn w (SpawnReq command) = Plain (spawn w command)"
| "registry idn w (GetDrmStatus appId) = Wrapped (\<lambda>message. getDrmStatus appId)"

definition handle_request :: "identity \<Rightarrow> world \<Rightarrow> request \<Rightarrow> sstate \<Rightarrow> sstate" where
  "handle_request idn w req s =
     (case registry idn w req of
        Wrapped runner \<Rightarrow> tryRespond runner req s
      | Plain handler \<Rightarrow> handler s)"


section \<open>Auxiliary notions for the proofs\<close>

text \<open>A file (a resolved path) that is present with content \<open>c\<close> and that no write
  of the run has addressed.\<close>

definition untouched :: "string list \<Rightarrow> string \<Rightarrow> pstate \<Rightarrow> bool" where
  "untouched p c s =
     (files s p = Some c \<and> (\<forall>q d. WriteFile q d \<in> set (out s) \<longrightarrow> resolve q \<noteq> p))"

text \<open>The events the listener of the install subscription produces.\<close>

definition listener_event :: "sevent \<Rightarrow> bool" where
  "listener_event ev = (ev = CancelSubscription \<or> (\<exists>m p. ev = ConsoleInfoPayload m p))"

text \<open>From \<open>s\<close> to \<open>s'\<close> no file disappears, the idle timeout stays (unless \<open>idle\<close>
  allows a change), and the events added all satisfy \<open>P\<close>.\<close>

definition changes :: "(sevent \<Rightarrow> bool) \<Rightarrow> bool \<Rightarrow> sstate \<Rightarrow> sstate \<Rightarrow> bool" where
  "changes P idle s s' =
     (dom (sfiles s) \<subseteq> dom (sfiles s')
      \<and> (idle \<or> idleTimeout s' = idleTimeout s)
      \<and> (\<exists>evs. trace s' = trace s @ evs \<and> list_all P evs))"

text \<open>The notification service accepts the toast with this message: it replies, and
  the reply's \<open>returnValue\<close> is truthy.\<close>

definition toast_accepted :: "identity \<Rightarrow> world \<Rightarrow> string \<Rightarrow> bool" where
  "toast_accepted idn w message =
     (case call_reply w ''luna://com.webos.notification/createToast''
             [(''sourceId'', JStr (serviceInfo_id idn)), (''message'', JStr message)] of
        None \<Rightarrow> False
      | Some reply \<Rightarrow> truthy (field reply ''returnValue''))"


section \<open>Concrete inputs\<close>

text \<open>A runtime whose \<open>JSON.parse\<close> rejects everything, and a file system with the
  service descriptor of the default service and a client permission file of
  unusual content.\<close>

definition runtime0 :: runtime where
  "runtime0 = \<lparr>json_parse = (\<lambda>t. None), json_stringify = (\<lambda>v. ''{}''), coerces_data = True,
     rescan_error = None, rescan_stdout = [], rescan_stderr = []\<rparr>"

definition files0 :: "string list \<rightharpoonup> string" where
  "files0 = [resolve (serviceFile ''org.webosbrew.hbchannel.service'') \<mapsto> ''Exec=/usr/bin/run-js-service -n /media/developer/apps/usr/palm/services/org.webosbrew.hbchannel.service'',
             resolve (clientPermFile ''org.webosbrew.hbchannel.service'') \<mapsto> ''custom'']"

text \<open>A run whose application name leads out of the manifest directory: the
  manifest path is another name of the client permission file of the service
  \<open>svc\<close>. The runtime parses the text \<open>{ }\<close> to the empty object and prints the
  empty object as \<open>{}\<close>.\<close>

definition argvTraversal :: "string list" where
  "argvTraversal = [''svc'', ''../client-permissions.d/svc.root'']"

definition runtimeTraversal :: runtime where
  "runtimeTraversal =
     \<lparr>json_parse = (\<lambda>t. if t = ''{ }'' then Some (JObj []) else None),
      json_stringify = (\<lambda>v. if v = JObj [] then ''{}'' else ''null''),
      coerces_data = True, rescan_error = None, rescan_stdout = [], rescan_stderr = []\<rparr>"

definition filesTraversal :: "string list \<rightharpoonup> string" where
  \<open>filesTraversal =
     [resolve (serviceFile ''svc'') \<mapsto> ''Exec=/media/developer/apps/usr/palm/services/svc/run'',
      resolve (apiPermFile ''svc'') \<mapsto> ''{"public":["svc/*"]}'',
      resolve (clientPermFile ''svc'') \<mapsto> ''{ }'']\<close>

text \<open>The descriptor of a NodeJS service of another application, alone in a file
  system.\<close>

definition exampleDescriptor :: string where
  "exampleDescriptor =
     ''Exec=/usr/bin/run-js-service -n /media/developer/apps/usr/palm/services/com.example.app.service''"

definition exampleService :: pstate where
  "exampleService =
     \<lparr>files = [resolve (serviceFile ''com.example.app.service'') \<mapsto> exampleDescriptor],
      out = [], configChanged = False, thrown = None\<rparr>"

text \<open>A legacy descriptor of a native service, whose launch line goes through
  \<open>jailer\<close>.\<close>

definition legacyJailed :: pstate where
  "legacyJailed = \<lparr>files = [resolve (legacyPubServiceFile ''com.example.app.service'') \<mapsto>
       ''Exec=/usr/bin/jailer -t native_devmode -i com.example.app -p /media/developer/apps/usr/palm/services/com.example.app.service /media/developer/apps/usr/palm/services/com.example.app.service/native-service''],
     out = [], configChanged = False, thrown = None\<rparr>"

text \<open>A root service instance in a world where every outside call succeeds and the
  platform reports the installation of the Homebrew Channel itself; the same world
  for an unprivileged instance; and two install requests, the second with the
  digest in upper case.\<close>

definition hbchannel :: identity where
  "hbchannel = \<lparr>rootAppInfo_id = ''org.webosbrew.hbchannel'', serviceInfo_id = ''org.webosbrew.hbchannel.service''\<rparr>"

definition world0 :: world where
  "world0 = \<lparr>uid = 0, now = 1700000000000, dirname = ''/media/developer/apps/usr/palm/services/org.webosbrew.hbchannel.service'',
     fetch_result = (\<lambda>url. Inr \<lparr>ok = True, statusText = ''OK'', body = ''ipk-bytes''\<rparr>),
     percentages = [JNum 50, JNum 100],
     copy_fault = None,
     digest = (\<lambda>alg content. ''abc123''),
     install_msgs = [Response [(''statusValue'', JNum 30), (''details'', JObj [(''packageId'', JStr ''org.webosbrew.hbchannel'')])]],
     call_reply = (\<lambda>uri args. Some [(''returnValue'', JBool True)]),
     execFile_result = (\<lambda>file args. Inr []),
     exec_result = (\<lambda>c. Some \<lparr>exec_error = None, stdout = ''out'', stderr = []\<rparr>),
     spawn_events = (\<lambda>c. []),
     buffer_toString = (\<lambda>enc bytes. enc @ '':'' @ bytes),
     write_fault = (\<lambda>path. None),
     unlink_fault = (\<lambda>path. None)\<rparr>"

definition world1 :: world where
  "world1 = world0\<lparr>uid := 1000\<rparr>"



definition state0 :: sstate where
  "state0 = \<lparr>sfiles = Map.empty, trace = [], idleTimeout = 5\<rparr>"

definition payload0 :: InstallPayload where
  "payload0 = \<lparr>ipkUrl = ''https://example.org/hbchannel.ipk'', ipkHash = ''abc123''\<rparr>"

definition payloadUpper :: InstallPayload where
  "payloadUpper = \<lparr>ipkUrl = ''https://example.org/hbchannel.ipk'', ipkHash = ''ABC123''\<rparr>"


section \<open>Properties of the Elevation Patcher\<close>

subsection \<open>String replacement\<close>

lemma prefix_append_long: "length pat \<le> length xs \<Longrightarrow> prefix pat (xs @ ys) = prefix pat xs"
  by (metis prefix_length_prefix append_prefixD prefixI prefix_order.order_refl prefix_prefix)

lemma str_replace_absent: "\<not> str_includes s pat \<Longrightarrow> str_replace s pat rep = s"
  by (induction s) (auto)

lemma str_replace_first:
  "pat \<noteq> [] \<Longrightarrow> \<not> str_includes (pre @ butlast pat) pat \<Longrightarrow>
   str_replace (pre @ pat @ post) pat rep = pre @ rep @ post"
proof (induction pre)
  case Nil
  then obtain c cs where "pat @ post = c # cs" by (cases pat) auto
  then show ?case using Nil by (cases pat) auto
next
  case (Cons a pre)
  have len: "length pat \<le> length ((a # pre) @ butlast pat)" by simp
  have "\<not> prefix pat ((a # pre) @ butlast pat)" using Cons.prems(2) by auto
  moreover have "(a # pre) @ pat @ post = ((a # pre) @ butlast pat) @ (last pat # post)"
    using Cons.prems(1) by simp
  ultimately have np: "\<not> prefix pat ((a # pre) @ pat @ post)"
    using prefix_append_long[OF len] by metis
  have "\<not> str_includes (pre @ butlast pat) pat" using Cons.prems(2) by auto
  then show ?case using Cons.IH Cons.prems(1) np by simp
qed


subsection \<open>The descriptor patch\<close>

text \<open>
  Claim C8, as amended. For every service/application name pair and every service
  descriptor whose content lacks the \<open>jailer\<close> marker, the patched content is the
  original with the first occurrence of the generic binary directory \<open>/usr/bin\<close>
  replaced by the fixed path
  \<open>/media/developer/apps/usr/palm/services/org.webosbrew.hbchannel.service\<close>, the
  directory of the Homebrew Channel's own service, whatever the names given; the
  file is rewritten with that content and the patch reports a change.
  (The hypothesis on \<open>pre\<close> says that no occurrence of \<open>/usr/bin\<close> starts inside
  \<open>pre\<close>, so the one shown is the first.)
\<close>

theorem patchServiceFile_nodejs_fixed_path:
  assumes "files s (resolve path) = Some (pre @ ''/usr/bin'' @ post)"
    and "\<not> str_includes (pre @ ''/usr/bin'' @ post) ''jailer''"
    and "\<not> str_includes (pre @ ''/usr/bi'') ''/usr/bin''"
  shows "serviceFileNew (pre @ ''/usr/bin'' @ post) appName serviceName =
           Some (pre @ ''/media/developer/apps/usr/palm/services/org.webosbrew.hbchannel.service'' @ post)
         \<and> fst (patchServiceFile rt path appName serviceName s) = Inr True
         \<and> files (snd (patchServiceFile rt path appName serviceName s)) (resolve path) =
           Some (pre @ ''/media/developer/apps/usr/palm/services/org.webosbrew.hbchannel.service'' @ post)"
proof -
  let ?rep = "''/media/developer/apps/usr/palm/services/org.webosbrew.hbchannel.service''"
  have r: "str_replace (pre @ ''/usr/bin'' @ post) ''/usr/bin'' ?rep = pre @ ?rep @ post"
    using str_replace_first[of "''/usr/bin''" pre post ?rep] assms(3) by simp
  have new: "serviceFileNew (pre @ ''/usr/bin'' @ post) appName serviceName = Some (pre @ ?rep @ post)"
    using assms(2) r by (simp add: serviceFileNew_def)
  have ne: "pre @ ?rep @ post \<noteq> pre @ ''/usr/bin'' @ post" by simp
  show ?thesis
    using assms(1) new ne
    by (simp add: patchServiceFile_def readFileSync_def writeFileSync_def info_def patchLog_def Let_def)
qed

text \<open>The theorem at a descriptor of the service \<open>com.example.app.service\<close>.\<close>

theorem patchServiceFile_nodejs_fixed_path_witness:
  "\<not> str_includes exampleDescriptor ''jailer''
   \<and> serviceFileNew exampleDescriptor (Some ''com.example.app'') (Some ''com.example.app.service'') =
       Some ''Exec=/media/developer/apps/usr/palm/services/org.webosbrew.hbchannel.service/run-js-service -n /media/developer/apps/usr/palm/services/com.example.app.service''
   \<and> files (snd (patchServiceFile runtime0 (serviceFile ''com.example.app.service'')
                   (Some ''com.example.app'') (Some ''com.example.app.service'') exampleService))
         (resolve (serviceFile ''com.example.app.service'')) =
       Some ''Exec=/media/developer/apps/usr/palm/services/org.webosbrew.hbchannel.service/run-js-service -n /media/developer/apps/usr/palm/services/com.example.app.service''"
proof -
  have f: "files exampleService (resolve (serviceFile ''com.example.app.service'')) =
      Some (''Exec='' @ ''/usr/bin'' @ ''/run-js-service -n /media/developer/apps/usr/palm/services/com.example.app.service'')"
    by (simp add: exampleService_def exampleDescriptor_def)
  have j: "\<not> str_includes (''Exec='' @ ''/usr/bin'' @ ''/run-js-service -n /media/developer/apps/usr/palm/services/com.example.app.service'') ''jailer''"
    by simp
  have b: "\<not> str_includes (''Exec='' @ ''/usr/bi'') ''/usr/bin''"
    by simp
  show ?thesis
    using patchServiceFile_nodejs_fixed_path[OF f j b, of "Some ''com.example.app''"
        "Some ''com.example.app.service''" runtime0]
    by (simp add: exampleDescriptor_def)
qed

text \<open>The claim as stated asks for a path derived from the named service. For
  \<open>com.example.app.service\<close> the patched content is the one above, with the
  Homebrew Channel's directory, and not the original with \<open>/usr/bin\<close> replaced by
  the directory of the named service.\<close>

theorem serviceFileNew_named_service_counterexample:
  "serviceFileNew exampleDescriptor (Some ''com.example.app'') (Some ''com.example.app.service'')
   \<noteq> Some (str_replace exampleDescriptor ''/usr/bin''
        (''/media/developer/apps/usr/palm/services/'' @ ''com.example.app.service''))"
  by (simp add: serviceFileNew_def exampleDescriptor_def)

text \<open>
  Claim C2: for a descriptor containing \<open>jailer\<close>, a patch called without the
  application or the service name should write nothing and report no change. The
  code leaves \<open>serviceFileNew\<close> unassigned there, and \<open>undefined\<close> differs from
  the original content: the patch goes on to \<open>writeFileSync\<close> with \<open>undefined\<close>
  as data. It never returns \<open>false\<close>: either the file is overwritten with the text
  \<open>undefined\<close> and a change is reported, or the write throws.
\<close>

theorem patchServiceFile_jailer_unnamed_writes:
  assumes "files s (resolve path) = Some original"
    and "str_includes original ''jailer''"
    and "\<not> (truthy_arg appName \<and> truthy_arg serviceName)"
  shows "serviceFileNew original appName serviceName = None
         \<and> fst (patchServiceFile rt path appName serviceName s) \<noteq> Inr False
         \<and> (if coerces_data rt
             then fst (patchServiceFile rt path appName serviceName s) = Inr True
                  \<and> files (snd (patchServiceFile rt path appName serviceName s)) (resolve path) = Some ''undefined''
                  \<and> last (out (snd (patchServiceFile rt path appName serviceName s))) = WriteFile path ''undefined''
             else fst (patchServiceFile rt path appName serviceName s) =
                    Inl (JsTypeError ''The data argument must be of type string or an instance of Buffer''))"
  using assms
  by (auto simp add: patchServiceFile_def serviceFileNew_def readFileSync_def writeFileSync_def Let_def)

text \<open>The theorem at the legacy descriptor of a native service, as \<open>main\<close> calls the
  patch for the legacy layout.\<close>

theorem patchServiceFile_jailer_unnamed_writes_witness:
  "fst (patchServiceFile \<lparr>json_parse = (\<lambda>t. None), json_stringify = (\<lambda>v. []), coerces_data = True,
            rescan_error = None, rescan_stdout = [], rescan_stderr = []\<rparr>
          (legacyPubServiceFile ''com.example.app.service'') None None legacyJailed) = Inr True
   \<and> files (snd (patchServiceFile \<lparr>json_parse = (\<lambda>t. None), json_stringify = (\<lambda>v. []), coerces_data = True,
            rescan_error = None, rescan_stdout = [], rescan_stderr = []\<rparr>
          (legacyPubServiceFile ''com.example.app.service'') None None legacyJailed))
       (resolve (legacyPubServiceFile ''com.example.app.service'')) = Some ''undefined''"
  using patchServiceFile_jailer_unnamed_writes[of legacyJailed "legacyPubServiceFile ''com.example.app.service''"
      "''Exec=/usr/bin/jailer -t native_devmode -i com.example.app -p /media/developer/apps/usr/palm/services/com.example.app.service /media/developer/apps/usr/palm/services/com.example.app.service/native-service''"
      None None
      "\<lparr>json_parse = (\<lambda>t. None), json_stringify = (\<lambda>v. []), coerces_data = True,
            rescan_error = None, rescan_stdout = [], rescan_stderr = []\<rparr>"]
  by (simp add: legacyJailed_def)


subsection \<open>The role amendment\<close>

text \<open>On a role with the two arrays, the amendment of \<open>allowedNames\<close> adds the
  wildcard exactly when it is missing. The amendment of \<open>permissions\<close> looks for
  the string \<open>*\<close> among the entries, and no permission record is that string.\<close>

lemma amendRole_lacking_both:
  assumes "\<not> list_ex (\<lambda>finding. strict_eq_str finding ''*'') names"
  shows "fst (amendRole (JObj [(''allowedNames'', JArr names), (''permissions'', JArr perms)]) s)
         = Inr (JObj [(''allowedNames'', JArr (names @ [JStr ''*''])),
                      (''permissions'',
                         JArr (if list_ex (\<lambda>finding. strict_eq_str finding ''*'') perms then perms
                               else perms @ [wildcardPermission]))])"
  using assms by (simp add: amendRole_def ensureWildcard_def)

lemma amendRole_names_present:
  assumes "list_ex (\<lambda>finding. strict_eq_str finding ''*'') names"
  shows "fst (amendRole (JObj [(''allowedNames'', JArr names), (''permissions'', JArr perms)]) s)
         = Inr (JObj [(''allowedNames'', JArr names),
                      (''permissions'',
                         JArr (if list_ex (\<lambda>finding. strict_eq_str finding ''*'') perms then perms
                               else perms @ [wildcardPermission]))])"
  using assms by (simp add: amendRole_def ensureWildcard_def)

lemma records_never_wildcard:
  "\<not> list_ex (\<lambda>finding. strict_eq_str finding ''*'') (map JObj records)"
  by (induction records) simp_all

text \<open>
  Claim C1: a role file that already holds the wildcard name and the wildcard
  permission record should gain no duplicate. The test on \<open>permissions\<close> compares
  each record with the string \<open>*\<close>, which no record equals: on a role that already
  holds both wildcards the amendment leaves \<open>allowedNames\<close> alone and appends a second
  wildcard permission record.
\<close>

theorem amendRole_duplicates_wildcard_permission:
  "fst (amendRole (JObj [(''allowedNames'', JArr [JStr ''*'']), (''permissions'', JArr [wildcardPermission])]) s)
   = Inr (JObj [(''allowedNames'', JArr [JStr ''*'']),
                (''permissions'', JArr [wildcardPermission, wildcardPermission])])"
  by (simp add: amendRole_def ensureWildcard_def wildcardPermission_def)


subsection \<open>The permission files\<close>

lemma untouched_info: "untouched p c s \<Longrightarrow> untouched p c (info m s)"
  by (simp add: untouched_def info_def)

lemma untouched_throw: "untouched p c s \<Longrightarrow> untouched p c (throw e s)"
  by (simp add: untouched_def throw_def)

lemma untouched_changed: "untouched p c s \<Longrightarrow> untouched p c (s\<lparr>configChanged := True\<rparr>)"
  by (simp add: untouched_def)

lemma untouched_guard:
  "(\<And>t. untouched p c t \<Longrightarrow> untouched p c (f t)) \<Longrightarrow> untouched p c s \<Longrightarrow> untouched p c (guard f s)"
  by (simp add: guard_def)

lemma untouched_write:
  "resolve q \<noteq> p \<Longrightarrow> untouched p c s \<Longrightarrow> untouched p c (snd (writeFileSync rt q d s))"
  by (auto simp add: untouched_def writeFileSync_def split: option.splits)

lemma untouched_patchServiceFile:
  "resolve q \<noteq> p \<Longrightarrow> untouched p c s \<Longrightarrow> untouched p c (snd (patchServiceFile rt q a n s))"
proof -
  assume q: "resolve q \<noteq> p" and u: "untouched p c s"
  show ?thesis
  proof (cases "readFileSync s q")
    case (Inl e)
    then show ?thesis using u by (simp add: patchServiceFile_def)
  next
    case (Inr original)
    have u1: "untouched p c (patchLog original a n s)"
      using u by (simp add: patchLog_def untouched_info)
    let ?s2 = "info (''+ '' @ shown (serviceFileNew original a n))
                (info (''- '' @ original)
                  (info (''[ ] Updating service definition: '' @ q) (patchLog original a n s)))"
    have "untouched p c ?s2" using u1 by (intro untouched_info)
    then have "untouched p c (snd (writeFileSync rt q (serviceFileNew original a n) ?s2))"
      using q by (rule untouched_write[rotated])
    then show ?thesis using Inr u1
      by (auto simp add: patchServiceFile_def Let_def split: prod.splits option.splits)
  qed
qed

lemma untouched_patchStep:
  "resolve q \<noteq> p \<Longrightarrow> untouched p c s \<Longrightarrow> untouched p c (patchStep rt q a n s)"
  using untouched_patchServiceFile[of q p c s rt a n]
  by (auto simp add: patchStep_def untouched_throw untouched_changed split: prod.splits sum.splits)

lemma untouched_createPermFile:
  "untouched p c s \<Longrightarrow> untouched p c (createPermFile rt q msg content s)"
proof (cases "resolve q = p")
  case True
  assume "untouched p c s"
  then show ?thesis using True by (simp add: createPermFile_def isFile_def untouched_def)
next
  case False
  assume u: "untouched p c s"
  have "untouched p c (snd (writeFileSync rt q (Some (json_stringify rt content)) (info (msg @ q) s)))"
    using False u by (intro untouched_write untouched_info)
  then show ?thesis using u
    by (auto simp add: createPermFile_def untouched_throw untouched_changed split: prod.splits option.splits)
qed

lemma untouched_writeIfChanged:
  "resolve q \<noteq> p \<Longrightarrow> untouched p c s \<Longrightarrow> untouched p c (writeIfChanged rt msg q original new s)"
proof -
  assume q: "resolve q \<noteq> p" and u: "untouched p c s"
  have "untouched p c (snd (writeFileSync rt q (Some new)
          (info (''+ '' @ new) (info (''- '' @ original) (info (msg @ q) s)))))"
    using q u by (intro untouched_write untouched_info)
  then show ?thesis using u
    by (auto simp add: writeIfChanged_def untouched_throw untouched_changed split: prod.splits option.splits)
qed

lemma untouched_manifestAdd:
  "untouched p c s \<Longrightarrow> untouched p c (snd (manifestAdd parsed fld path msg s))"
  by (auto simp add: manifestAdd_def untouched_info split: sum.splits bool.splits)

lemma untouched_ensureWildcard:
  "untouched p c s \<Longrightarrow> untouched p c (snd (ensureWildcard parsed fld x m1 m2 s))"
  by (auto simp add: ensureWildcard_def untouched_info split: sum.splits bool.splits)

lemma untouched_amendRole:
  "untouched p c s \<Longrightarrow> untouched p c (snd (amendRole parsed s))"
proof -
  assume u: "untouched p c s"
  show ?thesis
  proof (cases "ensureWildcard parsed ''allowedNames'' (JStr ''*'')
             ''[ ] role - already containing wildcard for allowed names.''
             ''[ ] role - pushing wildcard for allowed names to file...'' s")
    case (Pair r s1)
    have u1: "untouched p c s1" using untouched_ensureWildcard[OF u, of parsed "''allowedNames''"] Pair
      by (metis snd_conv)
    show ?thesis using Pair u1 untouched_ensureWildcard[OF u1]
      by (cases r) (simp_all add: amendRole_def)
  qed
qed

lemma untouched_manifestStep:
  assumes "resolve (manifestFile appName) \<noteq> p" and u: "untouched p c s"
  shows "untouched p c (manifestStep rt serviceName appName s)"
proof (cases "isFile s (manifestFile appName)")
  case False
  then show ?thesis using u by (simp add: manifestStep_def)
next
  case True
  let ?s1 = "info (''[~] Found webOS 4.x+ manifest file: '' @ manifestFile appName) s"
  have u1: "untouched p c ?s1" using u by (rule untouched_info)
  show ?thesis
  proof (cases "readFileSync ?s1 (manifestFile appName)")
    case (Inl e)
    then show ?thesis using True u1 by (simp add: manifestStep_def Let_def untouched_throw)
  next
    case (Inr original)
    show ?thesis
    proof (cases "json_parse rt original")
      case None
      then show ?thesis using True Inr u1 by (simp add: manifestStep_def Let_def untouched_throw)
    next
      case (Some parsed)
      obtain r2 s2 where a1: "manifestAdd parsed ''clientPermissionFiles'' (clientPermFile serviceName)
                        ''[ ] manifest - adding client permissions file...'' ?s1 = (r2, s2)"
        by (cases "manifestAdd parsed ''clientPermissionFiles'' (clientPermFile serviceName)
                        ''[ ] manifest - adding client permissions file...'' ?s1")
      have u2: "untouched p c s2" using untouched_manifestAdd[OF u1, of parsed] a1 by (metis snd_conv)
      show ?thesis
      proof (cases r2)
        case (Inl e)
        then show ?thesis using True Inr Some a1 u2 by (simp add: manifestStep_def Let_def untouched_throw)
      next
        case r2: (Inr parsed1)
        obtain r3 s3 where a2: "manifestAdd parsed1 ''apiPermissionFiles'' (apiPermFile serviceName)
                            ''[ ] manifest - adding API permissions file...'' s2 = (r3, s3)"
          by (cases "manifestAdd parsed1 ''apiPermissionFiles'' (apiPermFile serviceName)
                            ''[ ] manifest - adding API permissions file...'' s2")
        have u3: "untouched p c s3" using untouched_manifestAdd[OF u2, of parsed1] a2 by (metis snd_conv)
        show ?thesis
        proof (cases r3)
          case (Inl e)
          then show ?thesis using True Inr Some a1 r2 a2 u3
            by (simp add: manifestStep_def Let_def untouched_throw)
        next
          case r3: (Inr parsed2)
          show ?thesis using True Inr Some a1 r2 a2 r3 untouched_writeIfChanged[OF assms(1) u3]
            by (simp add: manifestStep_def Let_def)
        qed
      qed
    qed
  qed
qed

lemma untouched_roleStep:
  assumes "resolve (roleFile serviceName) \<noteq> p" and u: "untouched p c s"
  shows "untouched p c (roleStep rt serviceName s)"
proof (cases "isFile s (roleFile serviceName)")
  case False
  then show ?thesis using u by (simp add: roleStep_def)
next
  case True
  let ?s1 = "info (''[~] Found webOS 4.x+ role file: '' @ roleFile serviceName) s"
  have u1: "untouched p c ?s1" using u by (rule untouched_info)
  show ?thesis
  proof (cases "readFileSync ?s1 (roleFile serviceName)")
    case (Inl e)
    then show ?thesis using True u1 by (simp add: roleStep_def Let_def untouched_throw)
  next
    case (Inr original)
    show ?thesis
    proof (cases "json_parse rt original")
      case None
      then show ?thesis using True Inr u1 by (simp add: roleStep_def Let_def untouched_throw)
    next
      case (Some parsed)
      obtain r2 s2 where a1: "amendRole parsed ?s1 = (r2, s2)" by (cases "amendRole parsed ?s1")
      have u2: "untouched p c s2" using untouched_amendRole[OF u1, of parsed] a1 by (metis snd_conv)
      show ?thesis
      proof (cases r2)
        case (Inl e)
        then show ?thesis using True Inr Some a1 u2 by (simp add: roleStep_def Let_def untouched_throw)
      next
        case r2: (Inr parsed2)
        show ?thesis using True Inr Some a1 r2 untouched_writeIfChanged[OF assms(1) u2]
          by (simp add: roleStep_def Let_def)
      qed
    qed
  qed
qed

lemma untouched_legacyRoleStep:
  assumes "resolve (legacyPrvRolesFile serviceName) \<noteq> p" and u: "untouched p c s"
  shows "untouched p c (legacyRoleStep rt serviceName s)"
  using u untouched_writeIfChanged[OF assms(1) u]
  by (auto simp add: legacyRoleStep_def untouched_throw split: sum.splits)

lemma untouched_legacy:
  assumes "resolve (legacyPubServiceFile serviceName) \<noteq> p" and "resolve (legacyPrvServiceFile serviceName) \<noteq> p"
    and "resolve (legacyPrvRolesFile serviceName) \<noteq> p" and u: "untouched p c s"
  shows "untouched p c (legacy rt serviceName s)"
proof (cases "isFile s (legacyPubServiceFile serviceName)")
  case False
  then show ?thesis using u by (simp add: legacy_def)
next
  case True
  have "untouched p c
     (guard (legacyRoleStep rt serviceName)
          (guard (patchStep rt (legacyPrvServiceFile serviceName) None None)
            (patchStep rt (legacyPubServiceFile serviceName) None None
              (info (''[~] Found legacy webOS <3.x service file: '' @ legacyPubServiceFile serviceName) s))))"
    using assms by (intro untouched_guard untouched_legacyRoleStep untouched_patchStep untouched_info)
  then show ?thesis using True by (simp add: legacy_def)
qed

lemma untouched_rescan: "untouched p c s \<Longrightarrow> untouched p c (rescan rt s)"
  by (auto simp add: rescan_def untouched_def info_def Let_def split: option.splits)

lemma untouched_epoch3:
  assumes "resolve (serviceFile serviceName) \<noteq> p" and "resolve (manifestFile appName) \<noteq> p"
    and "resolve (roleFile serviceName) \<noteq> p" and u: "untouched p c s"
  shows "untouched p c (epoch3 rt serviceName appName s)"
proof (cases "isFile s (serviceFile serviceName)")
  case False
  then show ?thesis using u by (simp add: epoch3_def)
next
  case True
  have "untouched p c
     (guard (roleStep rt serviceName)
          (guard (manifestStep rt serviceName appName)
            (guard (createPermFile rt (apiPermFile serviceName)
                      ''[ ] Creating API permissions file: '' (apiPermContent serviceName))
              (guard (createPermFile rt (clientPermFile serviceName)
                        ''[ ] Creating client permissions file: '' (clientPermContent serviceName))
                (patchStep rt (serviceFile serviceName) (Some appName) (Some serviceName)
                  (info (''[~] Found webOS 3.x+ service file: '' @ serviceFile serviceName) s))))))"
    using assms
    by (intro untouched_guard untouched_roleStep untouched_manifestStep untouched_createPermFile
        untouched_patchStep untouched_info)
  then show ?thesis using True by (simp add: epoch3_def)
qed

lemma split_from_no_sep:
  "sep \<notin> set xs \<Longrightarrow> split_from (xs @ ys) sep cur = split_from ys sep (rev xs @ cur)"
  by (induction xs arbitrary: cur) auto

lemma long_segment: "2 < length seg \<Longrightarrow> seg \<noteq> [] \<and> seg \<noteq> ''.'' \<and> seg \<noteq> ''..''"
  by auto

text \<open>The paths of a run whose names hold no \<open>/\<close> are in resolved form: the last
  segment is the name with its suffix.\<close>

lemma resolve_paths:
  assumes "CHR ''/'' \<notin> set n"
  shows "resolve (serviceFile n) = [''var'', ''luna-service2-dev'', ''services.d'', n @ ''.service'']"
    and "resolve (clientPermFile n) = [''var'', ''luna-service2-dev'', ''client-permissions.d'', n @ ''.root.json'']"
    and "resolve (apiPermFile n) = [''var'', ''luna-service2-dev'', ''client-permissions.d'', n @ ''.api.public.json'']"
    and "resolve (manifestFile n) = [''var'', ''luna-service2-dev'', ''manifests.d'', n @ ''.json'']"
    and "resolve (roleFile n) = [''var'', ''luna-service2-dev'', ''roles.d'', n @ ''.service.json'']"
    and "resolve (legacyPubServiceFile n) = [''var'', ''palm'', ''ls2-dev'', ''services'', ''pub'', n @ ''.service'']"
    and "resolve (legacyPrvServiceFile n) = [''var'', ''palm'', ''ls2-dev'', ''services'', ''pub'', n @ ''.service'']"
    and "resolve (legacyPrvRolesFile n) = [''var'', ''palm'', ''ls2-dev'', ''roles'', ''prv'', n @ ''.json'']"
  using assms long_segment[of "n @ ''.service''"] long_segment[of "n @ ''.root.json''"]
    long_segment[of "n @ ''.api.public.json''"] long_segment[of "n @ ''.json''"]
    long_segment[of "n @ ''.service.json''"]
  by (simp_all add: resolve_def str_split_def split_from_no_sep serviceFile_def clientPermFile_def
      apiPermFile_def manifestFile_def roleFile_def legacyPubServiceFile_def legacyPrvServiceFile_def
      legacyPrvRolesFile_def)

text \<open>
  Claim C7, as amended. For every run of the patcher whose service name and
  application name contain no \<open>/\<close> (any runtime, any file system), and each of the two
  permission files of the service: if the file exists before the run, it has the
  same content after it, whatever that content is and whether or not the run ends
  in an exception, and no write of the run addresses it, under any name. The two
  files are written only when absent.
\<close>

theorem main_keeps_permission_files:
  assumes "resolveNames argv = (serviceName, appName)"
    and "CHR ''/'' \<notin> set serviceName" and "CHR ''/'' \<notin> set appName"
    and "p = clientPermFile serviceName \<or> p = apiPermFile serviceName"
    and "fs (resolve p) = Some c"
  shows "files (main rt argv fs) (resolve p) = Some c
       \<and> (\<forall>q d. WriteFile q d \<in> set (out (main rt argv fs)) \<longrightarrow> resolve q \<noteq> resolve p)"
proof -
  let ?s0 = "\<lparr>files = fs, out = [], configChanged = False, thrown = None\<rparr>"
  have u0: "untouched (resolve p) c ?s0" using assms(5) by (simp add: untouched_def)
  have d: "resolve (serviceFile serviceName) \<noteq> resolve p" "resolve (manifestFile appName) \<noteq> resolve p"
    "resolve (roleFile serviceName) \<noteq> resolve p"
    "resolve (legacyPubServiceFile serviceName) \<noteq> resolve p"
    "resolve (legacyPrvServiceFile serviceName) \<noteq> resolve p"
    "resolve (legacyPrvRolesFile serviceName) \<noteq> resolve p"
    using assms(4) resolve_paths[OF assms(2)] resolve_paths(4)[OF assms(3)] by auto
  have "untouched (resolve p) c
          (guard (rescan rt) (guard (legacy rt serviceName) (epoch3 rt serviceName appName ?s0)))"
    using d u0 by (intro untouched_guard untouched_rescan untouched_legacy untouched_epoch3)
  then show ?thesis using assms(1) by (simp add: main_def untouched_def)
qed

text \<open>The theorem at a run with no arguments over a file system in which the client
  permission file holds the text \<open>custom\<close>.\<close>

theorem main_keeps_permission_files_witness:
  "resolveNames [] = (''org.webosbrew.hbchannel.service'', ''org.webosbrew.hbchannel'')
   \<and> files0 (resolve (clientPermFile ''org.webosbrew.hbchannel.service'')) = Some ''custom''
   \<and> files (main runtime0 [] files0) (resolve (clientPermFile ''org.webosbrew.hbchannel.service'')) = Some ''custom''"
proof -
  have r: "resolveNames [] = (''org.webosbrew.hbchannel.service'', ''org.webosbrew.hbchannel'')"
    by (simp add: resolveNames_def str_split_def)
  have f: "files0 (resolve (clientPermFile ''org.webosbrew.hbchannel.service'')) = Some ''custom''"
    by (simp add: files0_def)
  have n: "CHR ''/'' \<notin> set ''org.webosbrew.hbchannel.service''" "CHR ''/'' \<notin> set ''org.webosbrew.hbchannel''"
    by simp_all
  show ?thesis
    using main_keeps_permission_files[where argv = "[]" and serviceName = "''org.webosbrew.hbchannel.service''"
        and appName = "''org.webosbrew.hbchannel''" and p = "clientPermFile ''org.webosbrew.hbchannel.service''"
        and fs = files0 and c = "''custom''" and rt = runtime0] r f n
    by simp
qed

text \<open>The claim as stated, for every run, fails when a name leads to another
  directory. With the application name \<open>../client-permissions.d/svc.root\<close> the
  manifest path resolves to the client permission file of \<open>svc\<close>; the manifest
  block parses that file, prints it again and, the text differing, overwrites
  it.\<close>

theorem main_traversal_counterexample:
  "resolveNames argvTraversal = (''svc'', ''../client-permissions.d/svc.root'')
   \<and> resolve (manifestFile ''../client-permissions.d/svc.root'') = resolve (clientPermFile ''svc'')
   \<and> filesTraversal (resolve (clientPermFile ''svc'')) = Some ''{ }''
   \<and> files (main runtimeTraversal argvTraversal filesTraversal) (resolve (clientPermFile ''svc'')) = Some ''{}''"
  by (simp add: resolveNames_def argvTraversal_def runtimeTraversal_def filesTraversal_def main_def
      epoch3_def legacy_def rescan_def guard_def throw_def patchStep_def patchServiceFile_def
      serviceFileNew_def patchLog_def createPermFile_def manifestStep_def manifestAdd_def
      roleStep_def writeIfChanged_def writeFileSync_def readFileSync_def isFile_def info_def
      resolve_def str_split_def serviceFile_def clientPermFile_def apiPermFile_def manifestFile_def
      roleFile_def legacyPubServiceFile_def legacyPrvServiceFile_def legacyPrvRolesFile_def Let_def)


section \<open>Properties of the control service\<close>

subsection \<open>The try/respond wrapper\<close>

lemma wrapped_operations:
  "(\<exists>runner. registry idn w req = Wrapped runner) = (\<forall>c. req \<noteq> ExecReq c \<and> req \<noteq> SpawnReq c)"
  by (cases req) auto

text \<open>
  Claim C5. Every registered operation other than \<open>exec\<close> and \<open>spawn\<close> is registered
  through \<open>tryRespond\<close>. For every request of such an operation: when the handler
  returns \<open>v\<close>, the wrapper sends exactly one success envelope, built from \<open>v\<close>, and
  then the cancellation; when the handler throws \<open>e\<close>, it sends exactly one error
  envelope whose \<open>errorText\<close> is \<open>e.toString()\<close>, and then the cancellation.
\<close>

theorem tryRespond_contract:
  assumes "\<forall>c. req \<noteq> ExecReq c \<and> req \<noteq> SpawnReq c"
  shows "\<exists>runner. registry idn w req = Wrapped runner
           \<and> handle_request idn w req s = tryRespond runner req s
           \<and> (\<forall>v s'. runner req s = (Some (Inr v), s') \<longrightarrow>
                 trace (handle_request idn w req s) = trace s' @ [Respond (makeSuccess v), Cancel (JObj [])])
           \<and> (\<forall>e s'. runner req s = (Some (Inl e), s') \<longrightarrow>
                 trace (handle_request idn w req s) =
                   trace s' @ [Respond (JObj [(''returnValue'', JBool False), (''errorText'', JStr (toString e))]),
                               Cancel (JObj [])])"
proof -
  obtain runner where r: "registry idn w req = Wrapped runner"
    using assms wrapped_operations[of idn w req] by auto
  have h: "handle_request idn w req s = tryRespond runner req s"
    using r by (simp add: handle_request_def)
  have ok: "\<forall>v s'. runner req s = (Some (Inr v), s') \<longrightarrow>
                 trace (tryRespond runner req s) = trace s' @ [Respond (makeSuccess v), Cancel (JObj [])]"
    by (simp add: tryRespond_def)
  have err: "\<forall>e s'. runner req s = (Some (Inl e), s') \<longrightarrow>
                 trace (tryRespond runner req s) =
                   trace s' @ [Respond (JObj [(''returnValue'', JBool False), (''errorText'', JStr (toString e))]),
                               Cancel (JObj [])]"
    by (simp add: tryRespond_def makeError_def merge_def)
  show ?thesis using r h ok err by auto
qed

text \<open>The theorem at \<open>checkRoot\<close>, which returns, and at \<open>getAppInfo\<close> with an empty
  id, which throws.\<close>

theorem tryRespond_contract_witness:
  "trace (handle_request hbchannel world0 CheckRoot state0) =
     [Respond (JObj [(''returnValue'', JBool True)]), Cancel (JObj [])]
   \<and> trace (handle_request hbchannel world0 (GetAppInfo []) state0) =
     [Respond (JObj [(''returnValue'', JBool False),
        (''errorText'', JStr (''Error: missing '' @ [CHR 0x60] @ ''id'' @ [CHR 0x60] @ '' string field''))]), Cancel (JObj [])]"
  using tryRespond_contract[of CheckRoot hbchannel world0 state0]
    tryRespond_contract[of "GetAppInfo []" hbchannel world0 state0]
  by (auto simp add: checkRoot_def getAppInfo_def ret_def throwE_def state0_def makeSuccess_def merge_def)


subsection \<open>exec\<close>





subsection \<open>Feature flags\<close>

lemma flagRead_false: "flagRead flag s = (Some (Inr False), s)"
  by (simp add: flagRead_def asyncAccess_def throwE_def)

text \<open>
  Claim C6: after \<open>setConfiguration({telnetDisabled: true})\<close>, \<open>getConfiguration\<close>
  should report \<open>telnetDisabled\<close> as true. \<open>flagRead\<close> awaits \<open>asyncAccess\<close>, which
  the adapter does not export; the call throws inside the \<open>try\<close> block and
  \<open>flagRead\<close> answers false. So the marker file is written, and both the response of
  \<open>setConfiguration\<close> and the following \<open>getConfiguration\<close> report the flag as
  false.
\<close>

theorem set_then_get_reports_false:
  assumes "write_fault w (flagPath ''webosbrew_telnet_disabled'') = None"
  shows "sfiles (handle_request idn w GetConfiguration
                   (handle_request idn w (SetConfiguration [(''telnetDisabled'', True)]) s))
           (flagPath ''webosbrew_telnet_disabled'') = Some ''1''
       \<and> trace (handle_request idn w GetConfiguration
                   (handle_request idn w (SetConfiguration [(''telnetDisabled'', True)]) s)) =
           trace s @
           [WriteFileA (flagPath ''webosbrew_telnet_disabled'') ''1'',
            Respond (JObj [(''returnValue'', JBool True), (''telnetDisabled'', JBool False)]),
            Cancel (JObj []),
            Respond (JObj [(''returnValue'', JBool True), (''root'', JBool (uid w = 0)),
                           (''telnetDisabled'', JBool False), (''failsafe'', JBool False),
                           (''sshdEnabled'', JBool False), (''blockUpdates'', JBool False)]),
            Cancel (JObj [])]"
  using assms
  by (simp add: handle_request_def tryRespond_def setConfiguration_def getConfiguration_def
      availableFlags_def flagNameOf_def flagSet_def flagRead_false asyncWriteFile_def andThen_def ret_def Let_def
      fromEntries_def merge_def makeSuccess_def)

text \<open>The theorem in the world where every file operation succeeds.\<close>

theorem set_then_get_reports_false_witness:
  "trace (handle_request hbchannel world0 GetConfiguration
            (handle_request hbchannel world0 (SetConfiguration [(''telnetDisabled'', True)]) state0)) =
     [WriteFileA ''/var/luna/preferences/webosbrew_telnet_disabled'' ''1'',
      Respond (JObj [(''returnValue'', JBool True), (''telnetDisabled'', JBool False)]),
      Cancel (JObj []),
      Respond (JObj [(''returnValue'', JBool True), (''root'', JBool True),
                     (''telnetDisabled'', JBool False), (''failsafe'', JBool False),
                     (''sshdEnabled'', JBool False), (''blockUpdates'', JBool False)]),
      Cancel (JObj [])]"
  using set_then_get_reports_false[of world0 hbchannel state0]
  by (simp add: world0_def state0_def flagPath_def)


subsection \<open>install: the checksum\<close>

text \<open>
  Claim C3. For every \<open>install\<close> request whose download completes and whose file has
  a SHA-256 hex digest different from the request's \<open>ipkHash\<close> (as strings, so case
  matters), the handler throws \<open>Error('Invalid file checksum')\<close>; the caller gets the
  progress messages up to the verification and then the error envelope, and the
  install endpoint of the platform is never subscribed to.
\<close>

theorem install_checksum_mismatch:
  assumes "fetch_result w (ipkUrl p) = Inr res" and "ok res" and "copy_fault w = None"
    and "digest w ''sha256'' (body res) \<noteq> ipkHash p"
  shows "fst (install idn w p s) = Some (Inl (JsError ''Invalid file checksum''))
       \<and> trace (handle_request idn w (Install p) s) =
           trace s @
           [Respond (JObj [(''statusText'', JStr (''Downloading'' @ ellipsis))]),
            Fetch (ipkUrl p),
            CreateWriteStream (targetPath w)]
           @ map (\<lambda>x. Respond (JObj [(''statusText'', JStr (''Downloading'' @ ellipsis)), (''progress'', x)]))
               (percentages w)
           @ [Respond (JObj [(''statusText'', JStr (''Verifying'' @ ellipsis))]),
              Respond (JObj [(''returnValue'', JBool False), (''errorText'', JStr ''Error: Invalid file checksum'')]),
              Cancel (JObj [])]
       \<and> (\<forall>h u a. Subscribe h u a \<in> set (trace (handle_request idn w (Install p) s))
                   \<longrightarrow> Subscribe h u a \<in> set (trace s))"
proof -
  have r: "install idn w p s =
     (Some (Inl (JsError ''Invalid file checksum'')),
      s\<lparr>sfiles := (sfiles s)(targetPath w \<mapsto> body res),
        trace := trace s @
           [Respond (JObj [(''statusText'', JStr (''Downloading'' @ ellipsis))]),
            Fetch (ipkUrl p),
            CreateWriteStream (targetPath w)]
           @ map (\<lambda>x. Respond (JObj [(''statusText'', JStr (''Downloading'' @ ellipsis)), (''progress'', x)]))
               (percentages w)
           @ [Respond (JObj [(''statusText'', JStr (''Verifying'' @ ellipsis))])]\<rparr>)"
    using assms
    by (simp add: install_def andThen_def respond_def emit_def fetch_def download_def hashFile_def
        throwE_def Let_def)
  show ?thesis
    by (auto simp add: r handle_request_def tryRespond_def makeError_def merge_def)
qed

text \<open>The theorem at a request whose \<open>ipkHash\<close> is the digest in upper case.\<close>

theorem install_checksum_mismatch_witness:
  "digest world0 ''sha256'' ''ipk-bytes'' = ''abc123''
   \<and> fst (install hbchannel world0 payloadUpper state0) = Some (Inl (JsError ''Invalid file checksum''))
   \<and> (\<forall>h u a. Subscribe h u a \<notin> set (trace (handle_request hbchannel world0 (Install payloadUpper) state0)))"
proof -
  have f: "fetch_result world0 (ipkUrl payloadUpper) = Inr \<lparr>ok = True, statusText = ''OK'', body = ''ipk-bytes''\<rparr>"
    by (simp add: world0_def)
  have o: "ok \<lparr>ok = True, statusText = ''OK'', body = ''ipk-bytes''\<rparr>" by simp
  have c: "copy_fault world0 = None" by (simp add: world0_def)
  have d: "digest world0 ''sha256'' (body \<lparr>ok = True, statusText = ''OK'', body = ''ipk-bytes''\<rparr>) \<noteq> ipkHash payloadUpper"
    by (simp add: world0_def payloadUpper_def)
  have g: "digest world0 ''sha256'' ''ipk-bytes'' = ''abc123''" by (simp add: world0_def)
  have t: "trace state0 = []" by (simp add: state0_def)
  show ?thesis
    using install_checksum_mismatch[OF f o c d, of hbchannel state0] g t by auto
qed


subsection \<open>install: what it leaves behind\<close>

lemma installResponses_cases:
  "snd (installResponses (Response p # ms) s) =
      s\<lparr>trace := trace s @ [ConsoleInfoPayload ''appInstallService response:'' p, CancelSubscription]\<rparr>
   \<or> snd (installResponses (Response p # ms) s) =
      s\<lparr>trace := trace s @ [ConsoleInfoPayload ''appInstallService response:'' p]\<rparr>
   \<or> installResponses (Response p # ms) s =
      installResponses ms (s\<lparr>trace := trace s @ [ConsoleInfoPayload ''appInstallService response:'' p]\<rparr>)"
  by (simp add: Let_def split: sum.splits)

lemma installResponses_trace:
  "\<exists>evs. snd (installResponses ms s) = s\<lparr>trace := trace s @ evs\<rparr> \<and> list_all listener_event evs"
proof (induction ms arbitrary: s)
  case Nil
  have "snd (installResponses [] s) = s\<lparr>trace := trace s @ []\<rparr> \<and> list_all listener_event []" by simp
  then show ?case by blast
next
  case (Cons m ms)
  show ?case
  proof (cases m)
    case (Cancelled v)
    have "snd (installResponses (m # ms) s) = s\<lparr>trace := trace s @ []\<rparr> \<and> list_all listener_event []"
      using Cancelled by simp
    then show ?thesis by blast
  next
    case (Response p)
    let ?i = "ConsoleInfoPayload ''appInstallService response:'' p"
    let ?s1 = "s\<lparr>trace := trace s @ [?i]\<rparr>"
    consider (a) "snd (installResponses (m # ms) s) = s\<lparr>trace := trace s @ [?i, CancelSubscription]\<rparr>"
      | (b) "snd (installResponses (m # ms) s) = ?s1"
      | (c) "installResponses (m # ms) s = installResponses ms ?s1"
      using installResponses_cases[of p ms s] Response by blast
    then show ?thesis
    proof cases
      case a
      have "list_all listener_event [?i, CancelSubscription]" by (simp add: listener_event_def)
      then show ?thesis using a by blast
    next
      case b
      have "list_all listener_event [?i]" by (simp add: listener_event_def)
      then show ?thesis using b by blast
    next
      case c
      obtain evs where e: "snd (installResponses ms ?s1) = ?s1\<lparr>trace := trace ?s1 @ evs\<rparr>"
        and l: "list_all listener_event evs" using Cons.IH[of ?s1] by blast
      have "snd (installResponses (m # ms) s) = s\<lparr>trace := trace s @ (?i # evs)\<rparr>"
        using c e by simp
      moreover have "list_all listener_event (?i # evs)" using l by (simp add: listener_event_def)
      ultimately show ?thesis by blast
    qed
  qed
qed

lemma installResponses_result: "fst (installResponses ms s) = fst (installResponses ms t)"
proof (induction ms arbitrary: s t)
  case Nil
  then show ?case by simp
next
  case (Cons m ms)
  show ?case
  proof (cases m)
    case (Cancelled v)
    then show ?thesis by simp
  next
    case (Response p)
    let ?i = "ConsoleInfoPayload ''appInstallService response:'' p"
    have "fst (installResponses ms (s\<lparr>trace := trace s @ [?i]\<rparr>))
        = fst (installResponses ms (t\<lparr>trace := trace t @ [?i]\<rparr>))" by (rule Cons.IH)
    then show ?thesis using Response by (simp add: Let_def split: sum.splits)
  qed
qed

lemma changes_refl: "changes P idle s s"
  by (simp add: changes_def)

lemma changes_trans:
  assumes a: "changes P idle s s1" and b: "changes P idle s1 s2"
  shows "changes P idle s s2"
proof -
  obtain e1 where e1: "trace s1 = trace s @ e1" "list_all P e1" using a by (auto simp add: changes_def)
  obtain e2 where e2: "trace s2 = trace s1 @ e2" "list_all P e2" using b by (auto simp add: changes_def)
  have "trace s2 = trace s @ (e1 @ e2) \<and> list_all P (e1 @ e2)" using e1 e2 by simp
  moreover have "dom (sfiles s) \<subseteq> dom (sfiles s2)" using a b by (auto simp add: changes_def)
  moreover have "idle \<or> idleTimeout s2 = idleTimeout s" using a b by (auto simp add: changes_def)
  ultimately show ?thesis unfolding changes_def by blast
qed

lemma changes_append: "list_all P evs \<Longrightarrow> changes P idle s (s\<lparr>trace := trace s @ evs\<rparr>)"
  by (simp add: changes_def)

lemma changes_andThen_from:
  assumes "\<And>x t. changes P idle t (snd (f x t))"
  shows "changes P idle (snd (m s)) (snd (andThen m f s))"
proof (cases "m s")
  case (Pair r s1)
  show ?thesis
  proof (cases r)
    case None
    then show ?thesis using Pair by (simp add: andThen_def changes_refl)
  next
    case (Some a)
    show ?thesis
    proof (cases a)
      case (Inl e)
      then show ?thesis using Pair Some by (simp add: andThen_def changes_refl)
    next
      case (Inr x)
      have "changes P idle s1 (snd (f x s1))" by (rule assms)
      then show ?thesis using Pair Some Inr by (simp add: andThen_def)
    qed
  qed
qed

lemma changes_andThen:
  assumes "\<And>t. changes P idle t (snd (m t))" and "\<And>x t. changes P idle t (snd (f x t))"
  shows "changes P idle s (snd (andThen m f s))"
  using assms(1)[of s] changes_andThen_from[of P idle f m s, OF assms(2)] by (rule changes_trans)


lemma changes_ret: "changes P idle s (snd (ret x s))"
  by (simp add: ret_def changes_refl)





lemma changes_download:
  assumes "P (CreateWriteStream path)" and "\<And>v. P (Respond v)"
  shows "changes P idle s (snd (download w res path s))"
proof -
  let ?evs = "CreateWriteStream path #
     map (\<lambda>p. Respond (JObj [(''statusText'', JStr (''Downloading'' @ ellipsis)), (''progress'', p)]))
       (percentages w)"
  have l: "list_all P ?evs" using assms by (simp add: list_all_iff)
  have "dom (sfiles s) \<subseteq> dom (sfiles (snd (download w res path s)))
      \<and> idleTimeout (snd (download w res path s)) = idleTimeout s
      \<and> trace (snd (download w res path s)) = trace s @ ?evs"
    by (auto simp add: download_def Let_def split: option.splits)
  then show ?thesis using l unfolding changes_def by blast
qed


lemma changes_installPackage:
  assumes "\<And>h u a. P (Subscribe h u a)" and "\<And>ev. listener_event ev \<Longrightarrow> P ev"
  shows "changes P idle s (snd (installPackage w path s))"
proof -
  let ?sub = "Subscribe (getInstallerService w) ''luna://com.webos.appInstallService/dev/install''
               [(''id'', JStr ''testing''), (''ipkUrl'', JStr path), (''subscribe'', JBool True)]"
  let ?s1 = "s\<lparr>trace := trace s @ [?sub]\<rparr>"
  obtain evs where e: "snd (installResponses (install_msgs w) ?s1) = ?s1\<lparr>trace := trace ?s1 @ evs\<rparr>"
    and l: "list_all listener_event evs" using installResponses_trace by blast
  have "list_all P (?sub # evs)" using l assms by (simp add: list_all_iff)
  then have "changes P idle s (s\<lparr>trace := trace s @ (?sub # evs)\<rparr>)" by (rule changes_append)
  then show ?thesis using e by (simp add: installPackage_def)
qed

lemma changes_asyncCall:
  "P (Call srv uri args) \<Longrightarrow> changes P idle s (snd (asyncCall w srv uri args s))"
  by (simp add: asyncCall_def changes_def Let_def split: option.splits)

lemma changes_createToast:
  "(\<And>h u a. P (Call h u a)) \<Longrightarrow> changes P idle s (snd (createToast idn w m s))"
  by (simp add: createToast_def changes_asyncCall)



lemma andThen_respond: "andThen (respond v) f s = f () (s\<lparr>trace := trace s @ [Respond v]\<rparr>)"
  by (simp add: andThen_def respond_def emit_def)

lemma andThen_fetch_ok:
  "fetch_result w url = Inr res \<Longrightarrow> andThen (fetch w url) f s = f res (s\<lparr>trace := trace s @ [Fetch url]\<rparr>)"
  by (simp add: andThen_def fetch_def)












subsection \<open>install: self-elevation\<close>

lemma afterInstall_other:
  assumes "pid \<noteq> JStr (rootAppInfo_id idn)"
  shows "changes (\<lambda>ev. \<forall>f a. ev \<noteq> ExecFileP f a) False s (snd (afterInstall idn w pid s))"
  unfolding afterInstall_def kHomebrewChannelPackageId_def
  apply (simp only: assms if_False)
  apply (intro changes_andThen changes_createToast changes_ret)
  apply simp
  done

lemma afterInstall_own_nonroot:
  assumes "uid w \<noteq> 0"
    and "toast_accepted idn w (''Application installed: '' @ rootAppInfo_id idn)"
  shows "idleTimeout (snd (afterInstall idn w (JStr (rootAppInfo_id idn)) s)) = 1
       \<and> ConsoleError ''Trying to elevate service without running as root. Skipping.''
            \<in> set (trace (snd (afterInstall idn w (JStr (rootAppInfo_id idn)) s)))
       \<and> changes (\<lambda>ev. \<forall>f a. ev \<noteq> ExecFileP f a) True s (snd (afterInstall idn w (JStr (rootAppInfo_id idn)) s))"
  using assms
  by (auto simp add: toast_accepted_def afterInstall_def kHomebrewChannelPackageId_def andThen_def
      createToast_def asyncCall_def Let_def elevateService_def runningAsRoot_def emit_def
      setIdleTimeout_def ret_def changes_def split: option.splits)

lemma afterInstall_own_root:
  assumes "uid w = 0"
    and "toast_accepted idn w (''Application installed: '' @ rootAppInfo_id idn)"
  shows "ExecFileP (dirname w @ ''/elevate-service'') [rootAppInfo_id idn]
           \<in> set (trace (snd (afterInstall idn w (JStr (rootAppInfo_id idn)) s)))
       \<and> (\<forall>output. execFile_result w (dirname w @ ''/elevate-service'') [rootAppInfo_id idn] = Inr output
            \<longrightarrow> idleTimeout (snd (afterInstall idn w (JStr (rootAppInfo_id idn)) s)) = 1)"
  using assms
  by (auto simp add: toast_accepted_def afterInstall_def kHomebrewChannelPackageId_def andThen_def
      createToast_def asyncCall_def Let_def elevateService_def runningAsRoot_def emit_def
      asyncExecFile_def setIdleTimeout_def ret_def split: option.splits sum.splits)

lemma andThen_download_ok:
  "copy_fault w = None \<Longrightarrow> andThen (download w res path) f s = f () (snd (download w res path s))"
  by (simp add: andThen_def download_def Let_def)

lemma download_content:
  "copy_fault w = None \<Longrightarrow> sfiles (snd (download w res path s)) path = Some (body res)"
  by (simp add: download_def Let_def)

lemma andThen_hashFile_ok:
  "sfiles s path = Some c \<Longrightarrow> andThen (hashFile w path alg) f s = f (digest w alg c) s"
  by (simp add: andThen_def hashFile_def)

lemma andThen_installPackage_ok:
  "fst (installPackage w path s) = Some (Inr pid) \<Longrightarrow>
   andThen (installPackage w path) f s = f pid (snd (installPackage w path s))"
  by (cases "installPackage w path s") (simp add: andThen_def)

lemma installPackage_result:
  "fst (installPackage w path s) = fst (installResponses (install_msgs w) s0)"
  unfolding installPackage_def by (rule installResponses_result)

lemma install_reaches_afterInstall:
  assumes f: "fetch_result w (ipkUrl p) = Inr res" and o: "ok res" and c: "copy_fault w = None"
    and d: "digest w ''sha256'' (body res) = ipkHash p"
    and i: "fst (installResponses (install_msgs w) s0) = Some (Inr pid)"
  shows "\<exists>sd. install idn w p s = afterInstall idn w pid sd
            \<and> changes (\<lambda>ev. \<forall>f a. ev \<noteq> ExecFileP f a) False s sd"
proof -
  let ?P = "\<lambda>ev. \<forall>f a. ev \<noteq> ExecFileP f a"
  let ?D = "Respond (JObj [(''statusText'', JStr (''Downloading'' @ ellipsis))])"
  let ?V = "Respond (JObj [(''statusText'', JStr (''Verifying'' @ ellipsis))])"
  let ?I = "Respond (JObj [(''statusText'', JStr (''Installing'' @ ellipsis))])"
  let ?s1 = "s\<lparr>trace := trace s @ [?D, Fetch (ipkUrl p)]\<rparr>"
  let ?s2 = "snd (download w res (targetPath w) ?s1)"
  let ?s3 = "?s2\<lparr>trace := trace ?s2 @ [?V, ?I]\<rparr>"
  let ?sd = "snd (installPackage w (targetPath w) ?s3)"
  have ip: "\<And>t. fst (installPackage w (targetPath w) t) = Some (Inr pid)"
    using i installPackage_result[of w "targetPath w" _ s0] by simp
  have eq: "install idn w p s = afterInstall idn w pid ?sd"
    by (simp add: install_def andThen_respond andThen_fetch_ok[OF f] o andThen_download_ok[OF c]
        download_content[OF c] andThen_hashFile_ok d andThen_installPackage_ok[OF ip])
  have c1: "changes ?P False s ?s1" by (rule changes_append) simp
  have c2: "changes ?P False ?s1 ?s2" by (rule changes_download) simp_all
  have c3: "changes ?P False ?s2 ?s3" by (rule changes_append) simp
  have c4: "changes ?P False ?s3 ?sd" by (rule changes_installPackage) (auto simp add: listener_event_def)
  have "changes ?P False s ?sd" using c1 c2 c3 c4 changes_trans by blast
  then show ?thesis using eq by blast
qed

lemma tryRespond_frame:
  "idleTimeout (tryRespond r m s) = idleTimeout (snd (r m s))
   \<and> (ExecFileP f a \<in> set (trace (tryRespond r m s))) = (ExecFileP f a \<in> set (trace (snd (r m s))))"
  by (cases "r m s") (auto simp add: tryRespond_def split: option.splits sum.splits)

lemma tryRespond_keeps_events:
  "ev \<in> set (trace (snd (r m s))) \<Longrightarrow> ev \<in> set (trace (tryRespond r m s))"
  by (cases "r m s") (auto simp add: tryRespond_def split: option.splits sum.splits)

lemma changes_no_exec:
  assumes "changes (\<lambda>ev. \<forall>f a. ev \<noteq> ExecFileP f a) idle s s'"
  shows "\<forall>f a. ExecFileP f a \<in> set (trace s') \<longrightarrow> ExecFileP f a \<in> set (trace s)"
proof (intro allI impI)
  fix f a assume m: "ExecFileP f a \<in> set (trace s')"
  obtain evs where e: "trace s' = trace s @ evs" and l: "list_all (\<lambda>ev. \<forall>f a. ev \<noteq> ExecFileP f a) evs"
    using assms unfolding changes_def by blast
  have "ExecFileP f a \<notin> set evs" using l unfolding list_all_iff by blast
  then show "ExecFileP f a \<in> set (trace s)" using m e by simp
qed

text \<open>
  Claim C4, as amended. Take an \<open>install\<close> call whose download and checksum pass and
  in which the platform reports the installed package id \<open>pid\<close>. If \<open>pid\<close> is the
  system's own application id and the toast about the installation is accepted,
  then: a root instance runs the Elevation Patcher with that id, and sets the idle
  timeout to 1 once that subprocess has succeeded; an instance that is not root logs
  the error that it skips the elevation, runs no subprocess and still sets the idle
  timeout to 1. For every other \<open>pid\<close> the
  call runs no subprocess and leaves the idle timeout as it was.
\<close>

theorem install_self_elevation:
  assumes f: "fetch_result w (ipkUrl p) = Inr res" and o: "ok res" and c: "copy_fault w = None"
    and d: "digest w ''sha256'' (body res) = ipkHash p"
    and i: "fst (installResponses (install_msgs w) s0) = Some (Inr pid)"
  shows "(pid = JStr (rootAppInfo_id idn)
            \<and> toast_accepted idn w (''Application installed: '' @ rootAppInfo_id idn) \<and> uid w = 0
          \<longrightarrow> ExecFileP (dirname w @ ''/elevate-service'') [rootAppInfo_id idn]
                 \<in> set (trace (handle_request idn w (Install p) s))
              \<and> (\<forall>output. execFile_result w (dirname w @ ''/elevate-service'') [rootAppInfo_id idn] = Inr output
                    \<longrightarrow> idleTimeout (handle_request idn w (Install p) s) = 1))
       \<and> (pid = JStr (rootAppInfo_id idn)
            \<and> toast_accepted idn w (''Application installed: '' @ rootAppInfo_id idn) \<and> uid w \<noteq> 0
          \<longrightarrow> idleTimeout (handle_request idn w (Install p) s) = 1
              \<and> ConsoleError ''Trying to elevate service without running as root. Skipping.''
                   \<in> set (trace (handle_request idn w (Install p) s))
              \<and> (\<forall>f a. ExecFileP f a \<in> set (trace (handle_request idn w (Install p) s))
                    \<longrightarrow> ExecFileP f a \<in> set (trace s)))
       \<and> (pid \<noteq> JStr (rootAppInfo_id idn)
          \<longrightarrow> idleTimeout (handle_request idn w (Install p) s) = idleTimeout s
              \<and> (\<forall>f a. ExecFileP f a \<in> set (trace (handle_request idn w (Install p) s))
                    \<longrightarrow> ExecFileP f a \<in> set (trace s)))"
proof -
  let ?P = "\<lambda>ev. \<forall>f a. ev \<noteq> ExecFileP f a"
  let ?own = "JStr (rootAppInfo_id idn)"
  let ?s' = "handle_request idn w (Install p) s"
  obtain sd where eq: "install idn w p s = afterInstall idn w pid sd" and cd: "changes ?P False s sd"
    using install_reaches_afterInstall[OF f o c d i] by blast
  have idle_sd: "idleTimeout sd = idleTimeout s" using cd by (simp add: changes_def)
  have h: "?s' = tryRespond (\<lambda>message. install idn w p) (Install p) s"
    by (simp add: handle_request_def)
  have fr: "idleTimeout ?s' = idleTimeout (snd (afterInstall idn w pid sd))"
    "\<And>f a. (ExecFileP f a \<in> set (trace ?s')) = (ExecFileP f a \<in> set (trace (snd (afterInstall idn w pid sd))))"
    using tryRespond_frame[of "\<lambda>message. install idn w p" "Install p" s] eq h by simp_all
  have root: "pid = ?own \<and> toast_accepted idn w (''Application installed: '' @ rootAppInfo_id idn) \<and> uid w = 0
      \<longrightarrow> ExecFileP (dirname w @ ''/elevate-service'') [rootAppInfo_id idn] \<in> set (trace ?s')
        \<and> (\<forall>output. execFile_result w (dirname w @ ''/elevate-service'') [rootAppInfo_id idn] = Inr output
              \<longrightarrow> idleTimeout ?s' = 1)"
    using afterInstall_own_root[of w idn sd] fr by auto
  have nonroot: "pid = ?own \<and> toast_accepted idn w (''Application installed: '' @ rootAppInfo_id idn) \<and> uid w \<noteq> 0
      \<longrightarrow> idleTimeout ?s' = 1
        \<and> ConsoleError ''Trying to elevate service without running as root. Skipping.'' \<in> set (trace ?s')
        \<and> (\<forall>f a. ExecFileP f a \<in> set (trace ?s') \<longrightarrow> ExecFileP f a \<in> set (trace s))"
  proof (intro impI)
    assume a: "pid = ?own \<and> toast_accepted idn w (''Application installed: '' @ rootAppInfo_id idn) \<and> uid w \<noteq> 0"
    have ai: "idleTimeout (snd (afterInstall idn w pid sd)) = 1"
      and al: "ConsoleError ''Trying to elevate service without running as root. Skipping.''
                 \<in> set (trace (snd (afterInstall idn w pid sd)))"
      and ac: "changes ?P True sd (snd (afterInstall idn w pid sd))"
      using a afterInstall_own_nonroot[of w idn sd] by auto
    have lg: "ConsoleError ''Trying to elevate service without running as root. Skipping.'' \<in> set (trace ?s')"
      using al tryRespond_keeps_events[of _ "\<lambda>message. install idn w p" "Install p" s] eq h by simp
    have "changes ?P True s sd" using cd by (auto simp add: changes_def)
    then have "changes ?P True s (snd (afterInstall idn w pid sd))" using ac changes_trans by blast
    then show "idleTimeout ?s' = 1
        \<and> ConsoleError ''Trying to elevate service without running as root. Skipping.'' \<in> set (trace ?s')
        \<and> (\<forall>f a. ExecFileP f a \<in> set (trace ?s') \<longrightarrow> ExecFileP f a \<in> set (trace s))"
      using ai lg fr changes_no_exec by auto
  qed
  have other: "pid \<noteq> ?own
      \<longrightarrow> idleTimeout ?s' = idleTimeout s
        \<and> (\<forall>f a. ExecFileP f a \<in> set (trace ?s') \<longrightarrow> ExecFileP f a \<in> set (trace s))"
  proof (intro impI)
    assume a: "pid \<noteq> ?own"
    have ac: "changes ?P False sd (snd (afterInstall idn w pid sd))"
      using a by (rule afterInstall_other)
    have t: "changes ?P False s (snd (afterInstall idn w pid sd))" using cd ac by (rule changes_trans)
    then have "idleTimeout (snd (afterInstall idn w pid sd)) = idleTimeout s" by (simp add: changes_def)
    then show "idleTimeout ?s' = idleTimeout s
        \<and> (\<forall>f a. ExecFileP f a \<in> set (trace ?s') \<longrightarrow> ExecFileP f a \<in> set (trace s))"
      using fr changes_no_exec[OF t] by auto
  qed
  show ?thesis using root nonroot other by blast
qed

text \<open>The theorem at the root instance installing the Homebrew Channel.\<close>

theorem install_self_elevation_witness:
  "ExecFileP (dirname world0 @ ''/elevate-service'') [''org.webosbrew.hbchannel'']
     \<in> set (trace (handle_request hbchannel world0 (Install payload0) state0))
   \<and> idleTimeout (handle_request hbchannel world0 (Install payload0) state0) = 1"
proof -
  have f: "fetch_result world0 (ipkUrl payload0) = Inr \<lparr>ok = True, statusText = ''OK'', body = ''ipk-bytes''\<rparr>"
    by (simp add: world0_def)
  have o: "ok \<lparr>ok = True, statusText = ''OK'', body = ''ipk-bytes''\<rparr>" by simp
  have c: "copy_fault world0 = None" by (simp add: world0_def)
  have d: "digest world0 ''sha256'' (body \<lparr>ok = True, statusText = ''OK'', body = ''ipk-bytes''\<rparr>) = ipkHash payload0"
    by (simp add: world0_def payload0_def)
  have i: "fst (installResponses (install_msgs world0) state0) = Some (Inr (JStr ''org.webosbrew.hbchannel''))"
    by (simp add: world0_def field_def Let_def)
  have t: "toast_accepted hbchannel world0 (''Application installed: '' @ rootAppInfo_id hbchannel)"
    by (simp add: toast_accepted_def world0_def field_def)
  have u: "uid world0 = 0" by (simp add: world0_def)
  have e: "execFile_result world0 (dirname world0 @ ''/elevate-service'') [rootAppInfo_id hbchannel] = Inr []"
    by (simp add: world0_def)
  have r: "rootAppInfo_id hbchannel = ''org.webosbrew.hbchannel''" by (simp add: hbchannel_def)
  show ?thesis
    using install_self_elevation[OF f o c d i, of hbchannel state0] t u e r by simp
qed

text \<open>The claim as stated fails for an instance that is not root: the platform
  reports the system's own application id, no subprocess is run, and the skip is
  logged.\<close>

theorem install_nonroot_counterexample:
  "fst (installResponses (install_msgs world1) state0) = Some (Inr (JStr (rootAppInfo_id hbchannel)))
   \<and> (\<forall>f a. ExecFileP f a \<notin> set (trace (handle_request hbchannel world1 (Install payload0) state0)))
   \<and> ConsoleError ''Trying to elevate service without running as root. Skipping.''
        \<in> set (trace (handle_request hbchannel world1 (Install payload0) state0))"
  by (simp add: world1_def world0_def hbchannel_def state0_def payload0_def handle_request_def
      tryRespond_def install_def afterInstall_def andThen_def respond_def emit_def fetch_def download_def
      hashFile_def installPackage_def createToast_def asyncCall_def elevateService_def setIdleTimeout_def
      ret_def throwE_def runningAsRoot_def getInstallerService_def kHomebrewChannelPackageId_def
      field_def Let_def)

end
